theory Spec2Isabelle
  imports Main "HOL-Library.Sublist" "HOL-Library.AList"
begin

section \<open>Block timetable of the Krishna Dudh vehicle management script\<close>

text \<open>
  The script \<^verbatim>\<open>app.py\<close> reads a list of route names and a list of vehicle
  identifiers from a spreadsheet, assigns one fixed vehicle to every route, gives every
  fixed vehicle a few holidays in the month, substitutes a backup vehicle on those days
  and emits, per route, blocks of consecutive days served by one vehicle label.

  Vehicle identifiers and route names are Python strings, days are Python integers,
  list positions are natural numbers. Every exception the code can raise is a value of
  \<open>py_error\<close>, all of them of Python's class \<^verbatim>\<open>Exception\<close>; a function that can
  raise returns \<open>py_error + 'a\<close>.
\<close>

subsection \<open>Data\<close>

datatype py_error = IndexError | ZeroDivisionError | KeyError | IllegalMonthError | OSError

text \<open>A block is the dictionary \<^verbatim>\<open>{"start": .., "end": .., "vehicle": ..}\<close>.\<close>

record block =
  block_start :: int
  block_end :: int
  block_vehicle :: string

text \<open>A row of the summary data frame.\<close>

record summary_row =
  row_vehicle :: string
  row_working_days :: int
  row_holidays :: int

subsection \<open>The calendar\<close>

text \<open>
  \<^verbatim>\<open>cal.monthrange(year, month)[1]\<close> of Python's standard library: the number of
  days of the month, \<^verbatim>\<open>IllegalMonthError\<close> for a month outside 1..12.
\<close>

definition isleap :: "int \<Rightarrow> bool" where
  "isleap year = (year mod 4 = 0 \<and> (year mod 100 \<noteq> 0 \<or> year mod 400 = 0))"

definition mdays :: "int list" where
  "mdays = [0, 31, 28, 31, 30, 31, 30, 31, 31, 30, 31, 30, 31]"

definition month_length :: "int \<Rightarrow> int \<Rightarrow> int" where
  "month_length year month = mdays ! nat month + (if month = 2 \<and> isleap year then 1 else 0)"

definition monthrange_days :: "int \<Rightarrow> int \<Rightarrow> py_error + int" where
  "monthrange_days year month =
     (if \<not> (1 \<le> month \<and> month \<le> 12) then Inl IllegalMonthError
      else Inr (month_length year month))"

subsection \<open>Holidays of the fixed vehicles (lines 27 to 32)\<close>

text \<open>
  The inner \<^verbatim>\<open>while len(holidays[v]) < 5 and day <= days_in_month\<close> loop. The
  dictionary \<^verbatim>\<open>holidays\<close> is a map from vehicle identifiers to lists of days.
\<close>

function holidays_while :: "int \<Rightarrow> string \<Rightarrow> int \<Rightarrow> (string \<rightharpoonup> int list) \<Rightarrow> py_error + (string \<rightharpoonup> int list)" where
  "holidays_while days_in_month v day holidays =
     (case holidays v of
        None \<Rightarrow> Inl KeyError
      | Some hs \<Rightarrow>
          if length hs < 5 \<and> day \<le> days_in_month
          then holidays_while days_in_month v (day + 6) (holidays(v \<mapsto> hs @ [day]))
          else Inr holidays)"
  by pat_completeness auto
termination
  by (relation "measure (\<lambda>(days_in_month, v, day, holidays). nat (days_in_month + 1 - day))") auto

declare holidays_while.simps [simp del]

text \<open>The \<^verbatim>\<open>for i, v in enumerate(fixed_vehicles)\<close> loop around it.\<close>

fun holidays_for :: "int \<Rightarrow> (nat \<times> string) list \<Rightarrow> (string \<rightharpoonup> int list) \<Rightarrow> py_error + (string \<rightharpoonup> int list)" where
  "holidays_for days_in_month [] holidays = Inr holidays"
| "holidays_for days_in_month ((i, v) # rest) holidays =
     (case holidays_while days_in_month v (int (i mod 5) + 6) holidays of
        Inl e \<Rightarrow> Inl e
      | Inr holidays' \<Rightarrow> holidays_for days_in_month rest holidays')"

text \<open>
  \<^verbatim>\<open>holidays = {v: [] for v in fixed_vehicles}\<close> followed by the two loops.
\<close>

definition assign_holidays :: "string list \<Rightarrow> int \<Rightarrow> py_error + (string \<rightharpoonup> int list)" where
  "assign_holidays fixed_vehicles days_in_month =
     holidays_for days_in_month (enumerate 0 fixed_vehicles)
       (map_of (map (\<lambda>v. (v, [])) fixed_vehicles))"

subsection \<open>The day loop of one route (lines 43 to 59)\<close>

text \<open>
  Lines 45 to 49: the vehicle label of one day and the next value of
  \<^verbatim>\<open>backup_index\<close>. \<^verbatim>\<open>backup_vehicles[backup_index]\<close> raises
  \<^verbatim>\<open>IndexError\<close> when the index is not below the length of the list (the index
  is never negative). The modulus is taken only after the indexing went through, so its
  divisor is positive there.
\<close>

definition assign_vehicle :: "string list \<Rightarrow> int list \<Rightarrow> string \<Rightarrow> int \<Rightarrow> nat \<Rightarrow> py_error + (string \<times> nat)" where
  "assign_vehicle backup_vehicles hs vehicle day backup_index =
     (if day \<in> set hs then
        (if backup_index < length backup_vehicles
         then Inr (backup_vehicles ! backup_index @ '' (H)'',
                   (backup_index + 1) mod length backup_vehicles)
         else Inl IndexError)
      else Inr (vehicle, backup_index))"

text \<open>
  The loop \<^verbatim>\<open>for day in range(1, days_in_month + 1)\<close> runs over the list of days it
  is given; its local variables \<^verbatim>\<open>blocks\<close>, \<^verbatim>\<open>start_day\<close>,
  \<^verbatim>\<open>current_vehicle\<close> and the shared \<^verbatim>\<open>backup_index\<close> are passed along.
\<close>

fun day_loop :: "(string \<rightharpoonup> int list) \<Rightarrow> string list \<Rightarrow> string \<Rightarrow> int \<Rightarrow> int list \<Rightarrow>
    block list \<Rightarrow> int \<Rightarrow> string \<Rightarrow> nat \<Rightarrow> py_error + (block list \<times> nat)" where
  "day_loop holidays backup_vehicles vehicle days_in_month [] blocks start_day current_vehicle backup_index =
     Inr (blocks, backup_index)"
| "day_loop holidays backup_vehicles vehicle days_in_month (day # days) blocks start_day current_vehicle backup_index =
     (case holidays vehicle of
        None \<Rightarrow> Inl KeyError
      | Some hs \<Rightarrow>
          (case assign_vehicle backup_vehicles hs vehicle day backup_index of
             Inl e \<Rightarrow> Inl e
           | Inr (assigned_vehicle, backup_index') \<Rightarrow>
               let changed = (assigned_vehicle \<noteq> current_vehicle);
                   blocks1 = (if changed
                              then blocks @ [\<lparr>block_start = start_day, block_end = day - 1,
                                              block_vehicle = current_vehicle\<rparr>]
                              else blocks);
                   current_vehicle1 = (if changed then assigned_vehicle else current_vehicle);
                   start_day1 = (if changed then day else start_day);
                   blocks2 = (if day = days_in_month
                              then blocks1 @ [\<lparr>block_start = start_day1, block_end = day,
                                               block_vehicle = current_vehicle1\<rparr>]
                              else blocks1)
               in day_loop holidays backup_vehicles vehicle days_in_month days
                    blocks2 start_day1 current_vehicle1 backup_index'))"

subsection \<open>The route loop (lines 37 to 61)\<close>

text \<open>
  \<^verbatim>\<open>timetable_blocks\<close> is a Python dictionary: an association list in insertion
  order, where assigning to a key that is present replaces its value in place
  (\<open>AList.update\<close>). \<^verbatim>\<open>r_idx % len(fixed_vehicles)\<close> raises
  \<^verbatim>\<open>ZeroDivisionError\<close> when there is no fixed vehicle.
\<close>

fun route_loop :: "(string \<rightharpoonup> int list) \<Rightarrow> string list \<Rightarrow> string list \<Rightarrow> int \<Rightarrow> (nat \<times> string) list \<Rightarrow>
    (string \<times> block list) list \<Rightarrow> nat \<Rightarrow> py_error + ((string \<times> block list) list \<times> nat)" where
  "route_loop holidays fixed_vehicles backup_vehicles days_in_month [] timetable_blocks backup_index =
     Inr (timetable_blocks, backup_index)"
| "route_loop holidays fixed_vehicles backup_vehicles days_in_month ((r_idx, route) # rest) timetable_blocks backup_index =
     (if length fixed_vehicles = 0 then Inl ZeroDivisionError
      else
        let vehicle = fixed_vehicles ! (r_idx mod length fixed_vehicles) in
        (case day_loop holidays backup_vehicles vehicle days_in_month [1..days_in_month]
                [] 1 vehicle backup_index of
           Inl e \<Rightarrow> Inl e
         | Inr (blocks, backup_index') \<Rightarrow>
             route_loop holidays fixed_vehicles backup_vehicles days_in_month rest
               (AList.update route blocks timetable_blocks) backup_index'))"

subsection \<open>\<^verbatim>\<open>generate_block_timetable\<close>\<close>

text \<open>
  The arguments are the two columns after \<^verbatim>\<open>dropna().tolist()\<close>, the year and the
  month.
\<close>

definition generate_block_timetable :: "string list \<Rightarrow> string list \<Rightarrow> int \<Rightarrow> int \<Rightarrow> py_error + (string \<times> block list) list" where
  "generate_block_timetable routes vehicles year month =
     (let fixed_vehicle_count = length routes;
          fixed_vehicles = take fixed_vehicle_count vehicles;
          backup_vehicles = drop fixed_vehicle_count vehicles
      in case monthrange_days year month of
           Inl e \<Rightarrow> Inl e
         | Inr days_in_month \<Rightarrow>
             (case assign_holidays fixed_vehicles days_in_month of
                Inl e \<Rightarrow> Inl e
              | Inr holidays \<Rightarrow>
                  (case route_loop holidays fixed_vehicles backup_vehicles days_in_month
                          (enumerate 0 routes) [] 0 of
                     Inl e \<Rightarrow> Inl e
                   | Inr (timetable_blocks, backup_index) \<Rightarrow> Inr timetable_blocks)))"

subsection \<open>\<^verbatim>\<open>generate_summary\<close> (lines 65 to 79)\<close>

text \<open>
  \<^verbatim>\<open>v in block['vehicle']\<close> on two strings is Python's substring test, that is
  \<open>sublist\<close>.
\<close>

definition block_work_days :: "string \<Rightarrow> int \<Rightarrow> block \<Rightarrow> int" where
  "block_work_days v work_days b =
     (if sublist v (block_vehicle b) \<and> \<not> sublist ''(H)'' (block_vehicle b)
      then work_days + (block_end b - block_start b + 1)
      else work_days)"

definition vehicle_work_days :: "(string \<times> block list) list \<Rightarrow> string \<Rightarrow> int" where
  "vehicle_work_days timetable_blocks v =
     foldl (\<lambda>work_days route_blocks. foldl (block_work_days v) work_days route_blocks)
       0 (map snd timetable_blocks)"

definition generate_summary :: "(string \<times> block list) list \<Rightarrow> string list \<Rightarrow> int \<Rightarrow> summary_row list" where
  "generate_summary timetable_blocks fixed_vehicles days_in_month =
     map (\<lambda>v. let work_days = vehicle_work_days timetable_blocks v;
                  holidays = days_in_month - work_days
              in \<lparr>row_vehicle = v, row_working_days = work_days, row_holidays = holidays\<rparr>)
       fixed_vehicles"

subsection \<open>The button handler (lines 207 to 237)\<close>

text \<open>
  \<^verbatim>\<open>try: ... except Exception: pass\<close> around a statement: whatever the statement
  raises, the handler goes on.
\<close>

definition try_except_pass :: "py_error + unit \<Rightarrow> py_error + unit" where
  "try_except_pass r = (case r of Inl e \<Rightarrow> Inr () | Inr u \<Rightarrow> Inr ())"

text \<open>
  What the page computes when the button is pressed. The PDF library and the file system
  are outside the script: \<open>pdf_result\<close> is the outcome of writing the PDF of a timetable
  to the temporary file and reading its bytes back, \<open>remove_result\<close> the outcome of
  \<^verbatim>\<open>os.remove(tmp_file.name)\<close>. The result is the pair of the PDF bytes and the summary
  rows offered for download. The summary is made for \<^verbatim>\<open>vehicles[:14]\<close> (line 231)
  and the number of days of the selected month (line 202).
\<close>

definition on_generate_click :: "string list \<Rightarrow> string list \<Rightarrow> int \<Rightarrow> int \<Rightarrow>
    ((string \<times> block list) list \<Rightarrow> py_error + 'pdf) \<Rightarrow> py_error + unit \<Rightarrow>
    py_error + ('pdf \<times> summary_row list)" where
  "on_generate_click routes vehicles year month pdf_result remove_result =
     (case monthrange_days year month of
        Inl e \<Rightarrow> Inl e
      | Inr days_in_month \<Rightarrow>
          (case generate_block_timetable routes vehicles year month of
             Inl e \<Rightarrow> Inl e
           | Inr timetable_blocks \<Rightarrow>
               (case pdf_result timetable_blocks of
                  Inl e \<Rightarrow> Inl e
                | Inr pdf_bytes \<Rightarrow>
                    (case try_except_pass remove_result of
                       Inl e \<Rightarrow> Inl e
                     | Inr u \<Rightarrow>
                         let fixed_vehicles = take 14 vehicles;
                             summary = generate_summary timetable_blocks fixed_vehicles days_in_month
                         in Inr (pdf_bytes, summary)))))"

section \<open>Notions used to state the properties\<close>

text \<open>
  Lines 21, 22 and 38: the fixed vehicles, the backup vehicles and the regular vehicle of
  the route enumerated at position \<open>r_idx\<close>.
\<close>

definition fixed_vehicles_of :: "string list \<Rightarrow> string list \<Rightarrow> string list" where
  "fixed_vehicles_of routes vehicles = take (length routes) vehicles"

definition backup_vehicles_of :: "string list \<Rightarrow> string list \<Rightarrow> string list" where
  "backup_vehicles_of routes vehicles = drop (length routes) vehicles"

definition route_vehicle :: "string list \<Rightarrow> string list \<Rightarrow> nat \<Rightarrow> string" where
  "route_vehicle routes vehicles r_idx =
     fixed_vehicles_of routes vehicles ! (r_idx mod length (fixed_vehicles_of routes vehicles))"

text \<open>
  The entry of the emitted dictionary under a route name is the one written by the last
  iteration of the route loop with that name.
\<close>

definition emitted_at :: "string list \<Rightarrow> nat \<Rightarrow> string \<Rightarrow> bool" where
  "emitted_at routes r_idx route =
     (r_idx < length routes \<and> routes ! r_idx = route \<and> route \<notin> set (drop (Suc r_idx) routes))"

text \<open>\<^verbatim>\<open>timetable_blocks[route]\<close> of the dictionary a run returns.\<close>

definition timetable_entry :: "string list \<Rightarrow> string list \<Rightarrow> int \<Rightarrow> int \<Rightarrow> string \<Rightarrow> block list option" where
  "timetable_entry routes vehicles year month route =
     (case generate_block_timetable routes vehicles year month of
        Inl e \<Rightarrow> None
      | Inr timetable_blocks \<Rightarrow> map_of timetable_blocks route)"

text \<open>An identifier that exactly one entry of a list carries.\<close>

definition occurs_once :: "string list \<Rightarrow> string \<Rightarrow> bool" where
  "occurs_once xs x = (count_list xs x = 1)"

text \<open>\<^verbatim>\<open>holidays[v]\<close> once the holidays have been assigned.\<close>

definition holidays_of :: "string list \<Rightarrow> int \<Rightarrow> string \<Rightarrow> int list option" where
  "holidays_of fixed_vehicles days_in_month v =
     (case assign_holidays fixed_vehicles days_in_month of Inl e \<Rightarrow> None | Inr holidays \<Rightarrow> holidays v)"

text \<open>
  The holiday rule in the words of the specification: the days \<open>(i mod 5) + 6\<close>,
  \<open>(i mod 5) + 12\<close>, ... in steps of 6, at most five of them, none beyond the last
  day \<open>n\<close> of the month.
\<close>

definition spec_holiday_days :: "nat \<Rightarrow> int \<Rightarrow> int list" where
  "spec_holiday_days i n = filter (\<lambda>d. d \<le> n) (map (\<lambda>k. int (i mod 5) + 6 * (int k + 1)) [0..<5])"

text \<open>
  The holiday marker, tested as the script tests it (\<^verbatim>\<open>"(H)" in b["vehicle"]\<close>,
  lines 75 and 133).
\<close>

definition holiday_marked :: "string \<Rightarrow> bool" where
  "holiday_marked label = sublist ''(H)'' label"

text \<open>The days of a block, and the label of the first block that covers a day.\<close>

definition block_days :: "block \<Rightarrow> int list" where
  "block_days b = [block_start b..block_end b]"

definition vehicle_on :: "block list \<Rightarrow> int \<Rightarrow> string option" where
  "vehicle_on blocks d =
     map_option block_vehicle (find (\<lambda>b. block_start b \<le> d \<and> d \<le> block_end b) blocks)"

text \<open>
  \<open>contiguous s blocks e\<close>: the blocks are non-empty ranges, the first starts at
  \<open>s\<close>, each next one starts on the day after its predecessor ends, and the last ends
  at \<open>e\<close>.
\<close>

fun contiguous :: "int \<Rightarrow> block list \<Rightarrow> int \<Rightarrow> bool" where
  "contiguous s [] e = (s = e + 1)"
| "contiguous s (b # bs) e =
     (block_start b = s \<and> block_start b \<le> block_end b \<and> contiguous (block_end b + 1) bs e)"

definition covers_month :: "int \<Rightarrow> block list \<Rightarrow> bool" where
  "covers_month n blocks =
     (blocks \<noteq> [] \<and> block_start (hd blocks) = 1 \<and> block_end (last blocks) = n \<and>
      contiguous 1 blocks n \<and> concat (map block_days blocks) = [1..n])"

text \<open>
  The number of holiday substitutions the route loop has made before it reaches day
  \<open>day\<close> of the route at position \<open>r_idx\<close>: all those of the routes before, and
  those of the earlier days of this route.
\<close>

definition holiday_list :: "(string \<rightharpoonup> int list) \<Rightarrow> string \<Rightarrow> int list" where
  "holiday_list holidays v = (case holidays v of None \<Rightarrow> [] | Some hs \<Rightarrow> hs)"

definition substitutions_upto :: "(string \<rightharpoonup> int list) \<Rightarrow> string \<Rightarrow> int \<Rightarrow> nat" where
  "substitutions_upto holidays v day = length (filter (\<lambda>d. d \<in> set (holiday_list holidays v)) [1..day])"

definition substitutions_before :: "(string \<rightharpoonup> int list) \<Rightarrow> string list \<Rightarrow> int \<Rightarrow> nat \<Rightarrow> int \<Rightarrow> nat" where
  "substitutions_before holidays fixed_vehicles days_in_month r_idx day =
     sum_list (map (\<lambda>j. substitutions_upto holidays (fixed_vehicles ! (j mod length fixed_vehicles)) days_in_month)
                 [0..<r_idx])
     + substitutions_upto holidays (fixed_vehicles ! (r_idx mod length fixed_vehicles)) (day - 1)"

section \<open>Auxiliary functions of the proofs\<close>

text \<open>The days \<open>day\<close>, \<open>day + 6\<close>, ..., at most \<open>k\<close> of them and none beyond \<open>n\<close>.\<close>

fun steps6 :: "nat \<Rightarrow> int \<Rightarrow> int \<Rightarrow> int list" where
  "steps6 0 day n = []"
| "steps6 (Suc k) day n = (if day \<le> n then day # steps6 k (day + 6) n else [])"

text \<open>Holiday dictionaries whose lists are short and hold days from 6 to \<open>n\<close> only.\<close>

definition holidays_ok :: "int \<Rightarrow> (string \<rightharpoonup> int list) \<Rightarrow> bool" where
  "holidays_ok n holidays =
     (\<forall>v hs. holidays v = Some hs \<longrightarrow> length hs \<le> 5 \<and> (\<forall>d\<in>set hs. 6 \<le> d \<and> d \<le> n))"

text \<open>
  The labels the day loop assigns to a list of days, and the blocks it builds from a list
  of labels: \<open>s\<close> is the start of the open block, \<open>c\<close> its label and \<open>d\<close> the day
  of the first label.
\<close>

fun day_labels :: "string list \<Rightarrow> int list \<Rightarrow> string \<Rightarrow> int list \<Rightarrow> nat \<Rightarrow> string list" where
  "day_labels backup hs vehicle [] bi = []"
| "day_labels backup hs vehicle (d # ds) bi =
     (if d \<in> set hs
      then (backup ! bi @ '' (H)'') # day_labels backup hs vehicle ds ((bi + 1) mod length backup)
      else vehicle # day_labels backup hs vehicle ds bi)"

fun encode :: "int \<Rightarrow> string \<Rightarrow> int \<Rightarrow> string list \<Rightarrow> block list" where
  "encode s c d [] = []"
| "encode s c d (l # ls) =
     (if l \<noteq> c then [\<lparr>block_start = s, block_end = d - 1, block_vehicle = c\<rparr>] else []) @
     (if ls = [] then [\<lparr>block_start = (if l \<noteq> c then d else s), block_end = d, block_vehicle = l\<rparr>]
      else encode (if l \<noteq> c then d else s) l (d + 1) ls)"

text \<open>
  The substitutions of the routes before position \<open>r_idx\<close>, and the blocks the route loop
  builds for the route at position \<open>r_idx\<close>, in closed form.
\<close>

definition substitutions_routes :: "(string \<rightharpoonup> int list) \<Rightarrow> string list \<Rightarrow> int \<Rightarrow> nat \<Rightarrow> nat" where
  "substitutions_routes holidays fixed_vehicles days_in_month r_idx =
     sum_list (map (\<lambda>j. substitutions_upto holidays (fixed_vehicles ! (j mod length fixed_vehicles)) days_in_month)
                 [0..<r_idx])"

definition route_blocks :: "(string \<rightharpoonup> int list) \<Rightarrow> string list \<Rightarrow> string list \<Rightarrow> int \<Rightarrow> nat \<Rightarrow> block list" where
  "route_blocks holidays fixed backup n r_idx =
     (let v = fixed ! (r_idx mod length fixed)
      in encode 1 v 1 (day_labels backup (holiday_list holidays v) v [1..n]
           (substitutions_routes holidays fixed n r_idx mod length backup)))"

section \<open>Example runs\<close>

text \<open>Two routes and four vehicles in April 2025, with the timetable the script emits.\<close>

definition example_routes :: "string list" where
  "example_routes = [''R1'', ''R2'']"

definition example_vehicles :: "string list" where
  "example_vehicles = [''V1'', ''V2'', ''V3'', ''V4'']"

definition example_blocks_R1 :: "block list" where
  "example_blocks_R1 =
     [\<lparr>block_start = 1, block_end = 5, block_vehicle = ''V1''\<rparr>,
      \<lparr>block_start = 6, block_end = 6, block_vehicle = ''V3 (H)''\<rparr>,
      \<lparr>block_start = 7, block_end = 11, block_vehicle = ''V1''\<rparr>,
      \<lparr>block_start = 12, block_end = 12, block_vehicle = ''V4 (H)''\<rparr>,
      \<lparr>block_start = 13, block_end = 17, block_vehicle = ''V1''\<rparr>,
      \<lparr>block_start = 18, block_end = 18, block_vehicle = ''V3 (H)''\<rparr>,
      \<lparr>block_start = 19, block_end = 23, block_vehicle = ''V1''\<rparr>,
      \<lparr>block_start = 24, block_end = 24, block_vehicle = ''V4 (H)''\<rparr>,
      \<lparr>block_start = 25, block_end = 29, block_vehicle = ''V1''\<rparr>,
      \<lparr>block_start = 30, block_end = 30, block_vehicle = ''V3 (H)''\<rparr>]"

definition example_blocks_R2 :: "block list" where
  "example_blocks_R2 =
     [\<lparr>block_start = 1, block_end = 6, block_vehicle = ''V2''\<rparr>,
      \<lparr>block_start = 7, block_end = 7, block_vehicle = ''V4 (H)''\<rparr>,
      \<lparr>block_start = 8, block_end = 12, block_vehicle = ''V2''\<rparr>,
      \<lparr>block_start = 13, block_end = 13, block_vehicle = ''V3 (H)''\<rparr>,
      \<lparr>block_start = 14, block_end = 18, block_vehicle = ''V2''\<rparr>,
      \<lparr>block_start = 19, block_end = 19, block_vehicle = ''V4 (H)''\<rparr>,
      \<lparr>block_start = 20, block_end = 24, block_vehicle = ''V2''\<rparr>,
      \<lparr>block_start = 25, block_end = 25, block_vehicle = ''V3 (H)''\<rparr>,
      \<lparr>block_start = 26, block_end = 30, block_vehicle = ''V2''\<rparr>]"

definition example_timetable :: "(string \<times> block list) list" where
  "example_timetable = [(''R1'', example_blocks_R1), (''R2'', example_blocks_R2)]"

text \<open>
  The blocks of route \<open>R1\<close> in February 2025 for the vehicles \<open>A, A, B\<close> (the two
  fixed vehicles share an identifier), and for the vehicles \<open>V(H), B\<close> (the identifier
  of the fixed vehicle contains the marker).
\<close>

definition duplicate_blocks :: "block list" where
  "duplicate_blocks =
     [\<lparr>block_start = 1, block_end = 5, block_vehicle = ''A''\<rparr>,
      \<lparr>block_start = 6, block_end = 7, block_vehicle = ''B (H)''\<rparr>,
      \<lparr>block_start = 8, block_end = 11, block_vehicle = ''A''\<rparr>,
      \<lparr>block_start = 12, block_end = 12, block_vehicle = ''B (H)''\<rparr>,
      \<lparr>block_start = 13, block_end = 17, block_vehicle = ''A''\<rparr>,
      \<lparr>block_start = 18, block_end = 18, block_vehicle = ''B (H)''\<rparr>,
      \<lparr>block_start = 19, block_end = 23, block_vehicle = ''A''\<rparr>,
      \<lparr>block_start = 24, block_end = 24, block_vehicle = ''B (H)''\<rparr>,
      \<lparr>block_start = 25, block_end = 28, block_vehicle = ''A''\<rparr>]"

definition marked_blocks :: "block list" where
  "marked_blocks =
     [\<lparr>block_start = 1, block_end = 5, block_vehicle = ''V(H)''\<rparr>,
      \<lparr>block_start = 6, block_end = 6, block_vehicle = ''B (H)''\<rparr>,
      \<lparr>block_start = 7, block_end = 11, block_vehicle = ''V(H)''\<rparr>,
      \<lparr>block_start = 12, block_end = 12, block_vehicle = ''B (H)''\<rparr>,
      \<lparr>block_start = 13, block_end = 17, block_vehicle = ''V(H)''\<rparr>,
      \<lparr>block_start = 18, block_end = 18, block_vehicle = ''B (H)''\<rparr>,
      \<lparr>block_start = 19, block_end = 23, block_vehicle = ''V(H)''\<rparr>,
      \<lparr>block_start = 24, block_end = 24, block_vehicle = ''B (H)''\<rparr>,
      \<lparr>block_start = 25, block_end = 28, block_vehicle = ''V(H)''\<rparr>]"

text \<open>
  The blocks emitted under the name \<open>R1\<close> in February 2025 for the routes
  \<open>R1, R2, R1\<close> and the vehicles \<open>V1, V2, V3, V4\<close>: the name recurs, and the entry
  is the one of the last position, served by \<open>V3\<close>.
\<close>

definition recurring_blocks :: "block list" where
  "recurring_blocks =
     [\<lparr>block_start = 1, block_end = 7, block_vehicle = ''V3''\<rparr>,
      \<lparr>block_start = 8, block_end = 8, block_vehicle = ''V4 (H)''\<rparr>,
      \<lparr>block_start = 9, block_end = 13, block_vehicle = ''V3''\<rparr>,
      \<lparr>block_start = 14, block_end = 14, block_vehicle = ''V4 (H)''\<rparr>,
      \<lparr>block_start = 15, block_end = 19, block_vehicle = ''V3''\<rparr>,
      \<lparr>block_start = 20, block_end = 20, block_vehicle = ''V4 (H)''\<rparr>,
      \<lparr>block_start = 21, block_end = 25, block_vehicle = ''V3''\<rparr>,
      \<lparr>block_start = 26, block_end = 26, block_vehicle = ''V4 (H)''\<rparr>,
      \<lparr>block_start = 27, block_end = 28, block_vehicle = ''V3''\<rparr>]"

section \<open>Lemmas\<close>

subsection \<open>The holiday loops\<close>

lemma steps6_append:
  "k > 0 \<Longrightarrow> day \<le> n \<Longrightarrow> day # steps6 (k - 1) (day + 6) n = steps6 k day n"
  by (cases k) auto

lemma holidays_while_eq:
  "holidays v = Some hs \<Longrightarrow>
   holidays_while n v day holidays = Inr (holidays(v \<mapsto> hs @ steps6 (5 - length hs) day n))"
proof (induction n v day holidays arbitrary: hs rule: holidays_while.induct)
  case (1 n v day holidays)
  show ?case
  proof (cases "length hs < 5 \<and> day \<le> n")
    case True
    have "holidays_while n v (day + 6) (holidays(v \<mapsto> hs @ [day])) =
          Inr ((holidays(v \<mapsto> hs @ [day]))(v \<mapsto> (hs @ [day]) @ steps6 (5 - length (hs @ [day])) (day + 6) n))"
      by (rule "1.IH"[OF "1.prems" True]) simp
    moreover have "day # steps6 (5 - length (hs @ [day])) (day + 6) n = steps6 (5 - length hs) day n"
      using True steps6_append[of "5 - length hs" day n] by simp
    ultimately have a: "holidays_while n v (day + 6) (holidays(v \<mapsto> hs @ [day])) =
          Inr (holidays(v \<mapsto> hs @ steps6 (5 - length hs) day n))"
      by (simp only: fun_upd_upd append_assoc append_Cons append_Nil)
    have b: "holidays_while n v day holidays = holidays_while n v (day + 6) (holidays(v \<mapsto> hs @ [day]))"
      using True "1.prems" by (subst holidays_while.simps) simp
    show ?thesis by (rule trans[OF b a])
  next
    case False
    then have "steps6 (5 - length hs) day n = []"
      by (cases "5 - length hs") auto
    then show ?thesis
      using False "1.prems" by (subst holidays_while.simps) (auto simp: fun_upd_idem)
  qed
qed

lemma steps6_bounds: "x \<in> set (steps6 k day n) \<Longrightarrow> day \<le> x \<and> x \<le> n"
  by (induction k day n rule: steps6.induct) (auto split: if_splits)

lemma steps6_length: "length (steps6 k day n) \<le> k"
  by (induction k day n rule: steps6.induct) auto


lemma holidays_while_ok:
  assumes "holidays_ok n holidays" "holidays v = Some hs" "6 \<le> day"
  shows "holidays_ok n (holidays(v \<mapsto> hs @ steps6 (5 - length hs) day n))"
proof -
  have a: "length hs \<le> 5" "\<forall>d\<in>set hs. 6 \<le> d \<and> d \<le> n"
    using assms(1,2) by (auto simp: holidays_ok_def)
  have "length (hs @ steps6 (5 - length hs) day n) \<le> 5"
    using steps6_length[of "5 - length hs" day n] a(1) by simp
  moreover have "\<forall>d\<in>set (hs @ steps6 (5 - length hs) day n). 6 \<le> d \<and> d \<le> n"
    using a(2) steps6_bounds[of _ "5 - length hs" day n] assms(3) by fastforce
  ultimately show ?thesis
    using assms(1) unfolding holidays_ok_def by (metis fun_upd_apply option.inject)
qed

lemma holidays_for_total:
  "snd ` set ivs \<subseteq> dom holidays \<Longrightarrow> holidays_ok n holidays \<Longrightarrow>
   \<exists>h. holidays_for n ivs holidays = Inr h \<and> dom h = dom holidays \<and> holidays_ok n h \<and>
     (\<forall>w. w \<notin> snd ` set ivs \<longrightarrow> h w = holidays w) \<and>
     (10 \<le> n \<longrightarrow> (\<forall>w hs. holidays w = Some hs \<and> hs \<noteq> [] \<longrightarrow> h w \<noteq> Some []) \<and> (\<forall>w \<in> snd ` set ivs. h w \<noteq> Some []))"
proof (induction ivs arbitrary: holidays)
  case Nil
  then show ?case by auto
next
  case (Cons iv ivs)
  obtain i v where iv: "iv = (i, v)" by (cases iv)
  from Cons.prems(1) iv obtain hs where hs: "holidays v = Some hs" by auto
  let ?day = "int (i mod 5) + 6"
  let ?h1 = "holidays(v \<mapsto> hs @ steps6 (5 - length hs) ?day n)"
  have w: "holidays_while n v ?day holidays = Inr ?h1"
    by (rule holidays_while_eq) (rule hs)
  have ok1: "holidays_ok n ?h1"
    using holidays_while_ok[OF Cons.prems(2) hs] by simp
  have dom1: "dom ?h1 = dom holidays" using hs by auto
  have sub1: "snd ` set ivs \<subseteq> dom ?h1" using Cons.prems(1) dom1 by auto
  from Cons.IH[OF sub1 ok1] obtain h where h:
    "holidays_for n ivs ?h1 = Inr h" "dom h = dom ?h1" "holidays_ok n h"
    "\<forall>w. w \<notin> snd ` set ivs \<longrightarrow> h w = ?h1 w"
    "10 \<le> n \<longrightarrow> (\<forall>w hs. ?h1 w = Some hs \<and> hs \<noteq> [] \<longrightarrow> h w \<noteq> Some []) \<and> (\<forall>w \<in> snd ` set ivs. h w \<noteq> Some [])"
    by blast
  have run: "holidays_for n (iv # ivs) holidays = Inr h"
    using w h(1) iv by simp
  have frame: "\<forall>w. w \<notin> snd ` set (iv # ivs) \<longrightarrow> h w = holidays w"
    using h(4) iv by auto
  have ne: "10 \<le> n \<Longrightarrow> hs @ steps6 (5 - length hs) ?day n \<noteq> []"
  proof -
    assume n: "10 \<le> n"
    show ?thesis
    proof (cases hs)
      case Nil
      have le: "?day \<le> n" using n by simp
      have "hs @ steps6 (5 - length hs) ?day n = steps6 (Suc 4) ?day n"
        using Nil by simp
      also have "\<dots> = ?day # steps6 4 (?day + 6) n"
        using le by (simp only: steps6.simps if_True)
      finally show ?thesis by simp
    qed simp
  qed
  have nonempty: "10 \<le> n \<longrightarrow> (\<forall>w hs. holidays w = Some hs \<and> hs \<noteq> [] \<longrightarrow> h w \<noteq> Some []) \<and> (\<forall>w \<in> snd ` set (iv # ivs). h w \<noteq> Some [])"
  proof
    assume n: "10 \<le> n"
    have a: "\<forall>w hs'. ?h1 w = Some hs' \<and> hs' \<noteq> [] \<longrightarrow> h w \<noteq> Some []"
      and b: "\<forall>w \<in> snd ` set ivs. h w \<noteq> Some []" using h(5) n by blast+
    have v: "h v \<noteq> Some []" using a ne[OF n] by simp
    have "\<forall>w hs'. holidays w = Some hs' \<and> hs' \<noteq> [] \<longrightarrow> h w \<noteq> Some []"
    proof (intro allI impI)
      fix w hs' assume c: "holidays w = Some hs' \<and> hs' \<noteq> []"
      show "h w \<noteq> Some []"
      proof (cases "w = v")
        case True then show ?thesis using v by simp
      next
        case False
        then have "?h1 w = Some hs'" using c by simp
        then show ?thesis using a c by blast
      qed
    qed
    moreover have "\<forall>w \<in> snd ` set (iv # ivs). h w \<noteq> Some []"
      using b v iv by auto
    ultimately show "(\<forall>w hs. holidays w = Some hs \<and> hs \<noteq> [] \<longrightarrow> h w \<noteq> Some []) \<and> (\<forall>w \<in> snd ` set (iv # ivs). h w \<noteq> Some [])"
      by blast
  qed
  have domh: "dom h = dom holidays" using h(2) dom1 by (simp only:)
  show ?case using run domh h(3) frame nonempty by blast
qed

lemma holidays_for_once:
  "count_list vs (vs ! j) = 1 \<Longrightarrow> j < length vs \<Longrightarrow> holidays (vs ! j) = Some [] \<Longrightarrow>
   set vs \<subseteq> dom holidays \<Longrightarrow> holidays_ok n holidays \<Longrightarrow>
   holidays_for n (enumerate k vs) holidays = Inr h \<Longrightarrow>
   h (vs ! j) = Some (steps6 5 (int ((k + j) mod 5) + 6) n)"
proof (induction vs arbitrary: k holidays j)
  case Nil
  then show ?case by simp
next
  case (Cons v vs)
  let ?day = "int (k mod 5) + 6"
  obtain hs where hv: "holidays v = Some hs" using Cons.prems(4) by auto
  let ?h1 = "holidays(v \<mapsto> hs @ steps6 (5 - length hs) ?day n)"
  have w: "holidays_while n v ?day holidays = Inr ?h1"
    by (rule holidays_while_eq) (rule hv)
  have run: "holidays_for n (enumerate (Suc k) vs) ?h1 = Inr h"
    using Cons.prems(6) w by simp
  have ok1: "holidays_ok n ?h1"
    using holidays_while_ok[OF Cons.prems(5) hv, of ?day] by simp
  have dom1: "set vs \<subseteq> dom ?h1" using Cons.prems(4) by auto
  have "snd ` set (enumerate (Suc k) vs) = set (map snd (enumerate (Suc k) vs))"
    by (simp only: set_map)
  then have img: "snd ` set (enumerate (Suc k) vs) = set vs" by simp
  show ?case
  proof (cases j)
    case 0
    then have "count_list vs v = 0" using Cons.prems(1) by simp
    then have nin: "v \<notin> set vs" by (simp add: count_list_0_iff)
    have "hs = []" using Cons.prems(3) hv 0 by simp
    then have h1v: "?h1 v = Some (steps6 5 ?day n)" by simp
    have sub: "snd ` set (enumerate (Suc k) vs) \<subseteq> dom ?h1" using dom1 img by simp
    from holidays_for_total[OF sub ok1] run
    have "\<forall>u. u \<notin> snd ` set (enumerate (Suc k) vs) \<longrightarrow> h u = ?h1 u" by auto
    then have "h v = ?h1 v" using nin img by blast
    then show ?thesis using 0 h1v by simp
  next
    case (Suc j')
    then have j': "j' < length vs" using Cons.prems(2) by simp
    have mem: "vs ! j' \<in> set vs" using j' by (rule nth_mem)
    then have pos: "0 < count_list vs (vs ! j')" by (simp add: count_list_0_iff zero_less_iff_neq_zero)
    have ne: "vs ! j' \<noteq> v"
    proof
      assume "vs ! j' = v"
      then have "count_list (v # vs) ((v # vs) ! j) = count_list vs (vs ! j') + 1" using Suc by simp
      then show False using Cons.prems(1) pos by simp
    qed
    then have c: "count_list vs (vs ! j') = 1" using Cons.prems(1) Suc by simp
    have e: "?h1 (vs ! j') = Some []" using Cons.prems(3) Suc ne by simp
    from Cons.IH[OF c j' e dom1 ok1 run] show ?thesis using Suc by simp
  qed
qed

lemma steps6_five:
  "steps6 5 (int (i mod 5) + 6) n = spec_holiday_days i n"
proof -
  have five: "[0..<5] = [0, 1, 2, 3, 4]" by (simp add: upt_rec)
  have s: "steps6 5 d n = (if d \<le> n then d # (if d + 6 \<le> n then (d + 6) # (if d + 12 \<le> n then (d + 12) #
      (if d + 18 \<le> n then (d + 18) # (if d + 24 \<le> n then [d + 24] else []) else []) else []) else []) else [])" for d
    by (simp add: eval_nat_numeral)
  show ?thesis
    unfolding spec_holiday_days_def five s by (simp add: algebra_simps)
qed

lemma assign_holidays_total:
  "\<exists>holidays. assign_holidays fixed_vehicles n = Inr holidays \<and> dom holidays = set fixed_vehicles \<and>
     holidays_ok n holidays \<and> (10 \<le> n \<longrightarrow> (\<forall>v\<in>set fixed_vehicles. holidays v \<noteq> Some []))"
proof -
  let ?h0 = "map_of (map (\<lambda>v. (v, [])) fixed_vehicles) :: string \<rightharpoonup> int list"
  have dom0: "dom ?h0 = set fixed_vehicles"
    by (simp add: dom_map_of_conv_image_fst image_image)
  have ok0: "holidays_ok n ?h0"
    by (auto simp: holidays_ok_def dest!: map_of_SomeD)
  have "snd ` set (enumerate 0 fixed_vehicles) = set (map snd (enumerate 0 fixed_vehicles))"
    by (simp only: set_map)
  then have img: "snd ` set (enumerate 0 fixed_vehicles) = set fixed_vehicles"
    by simp
  have sub: "snd ` set (enumerate 0 fixed_vehicles) \<subseteq> dom ?h0"
    using dom0 img by simp
  from holidays_for_total[OF sub ok0] show ?thesis
    unfolding assign_holidays_def img dom0 by blast
qed

lemma assign_holidays_once:
  assumes "occurs_once fixed_vehicles (fixed_vehicles ! i)" "i < length fixed_vehicles"
    and "assign_holidays fixed_vehicles n = Inr holidays"
  shows "holidays (fixed_vehicles ! i) = Some (spec_holiday_days i n)"
proof -
  let ?h0 = "map_of (map (\<lambda>v. (v, [])) fixed_vehicles) :: string \<rightharpoonup> int list"
  have ok0: "holidays_ok n ?h0"
    by (auto simp: holidays_ok_def dest!: map_of_SomeD)
  have e: "\<forall>v\<in>set fixed_vehicles. ?h0 v = Some []"
    by (induction fixed_vehicles) auto
  then have e': "?h0 (fixed_vehicles ! i) = Some []" using assms(2) by simp
  have dom0: "set fixed_vehicles \<subseteq> dom ?h0" using e by auto
  have c: "count_list fixed_vehicles (fixed_vehicles ! i) = 1"
    using assms(1) by (simp add: occurs_once_def)
  have "holidays (fixed_vehicles ! i) = Some (steps6 5 (int ((0 + i) mod 5) + 6) n)"
    using assms(3) unfolding assign_holidays_def
    by (rule holidays_for_once[OF c assms(2) e' dom0 ok0])
  then show ?thesis by (simp add: steps6_five)
qed

subsection \<open>The day loop, as labels and their blocks\<close>

lemma length_day_labels [simp]: "length (day_labels backup hs vehicle ds bi) = length ds"
  by (induction ds arbitrary: bi) auto

lemma day_labels_Nil [simp]: "day_labels backup hs vehicle ds bi = [] \<longleftrightarrow> ds = []"
  by (cases ds) auto

lemma day_loop_encode:
  assumes "holidays vehicle = Some hs" "backup \<noteq> []"
  shows "bi < length backup \<Longrightarrow>
    day_loop holidays backup vehicle n [d..n] blocks s c bi =
      Inr (blocks @ encode s c d (day_labels backup hs vehicle [d..n] bi),
           (bi + length (filter (\<lambda>x. x \<in> set hs) [d..n])) mod length backup)"
proof (induction d n arbitrary: blocks s c bi rule: upto.induct)
  case (1 d n)
  show ?case
  proof (cases "d \<le> n")
    case False
    then show ?thesis using "1.prems" by simp
  next
    case True
    have u: "[d..n] = d # [d + 1..n]" using True by (rule upto_rec1)
    have last: "(n < d + 1) = (d = n)" using True by auto
    show ?thesis
    proof (cases "d \<in> set hs")
      case h: True
      let ?l = "backup ! bi @ '' (H)''"
      let ?bi = "(bi + 1) mod length backup"
      have bi': "?bi < length backup" using assms(2) by simp
      have a: "assign_vehicle backup hs vehicle d bi = Inr (?l, ?bi)"
        using h "1.prems" by (simp add: assign_vehicle_def)
      have cnt: "(Suc bi mod length backup + k) mod length backup = Suc (bi + k) mod length backup" for k
        by (simp add: mod_add_left_eq)
      show ?thesis
        unfolding u using "1.IH"[OF True bi'] assms(1) a last h
        by (simp add: Let_def cnt)
    next
      case h: False
      have a: "assign_vehicle backup hs vehicle d bi = Inr (vehicle, bi)"
        using h by (simp add: assign_vehicle_def)
      show ?thesis
        unfolding u using "1.IH"[OF True "1.prems"] assms(1) a last h
        by (simp add: Let_def)
    qed
  qed
qed

subsection \<open>Blocks built from a list of labels\<close>

lemma vehicle_on_Cons:
  "vehicle_on (b # bs) x =
     (if block_start b \<le> x \<and> x \<le> block_end b then Some (block_vehicle b) else vehicle_on bs x)"
  by (simp add: vehicle_on_def)

lemma encode_nonempty: "ls \<noteq> [] \<Longrightarrow> encode s c d ls \<noteq> []"
  by (induction ls arbitrary: s c d) auto

lemma encode_hd:
  "ls \<noteq> [] \<Longrightarrow> block_start (hd (encode s c d ls)) = s \<and> block_vehicle (hd (encode s c d ls)) = c"
proof (induction ls arbitrary: s c d)
  case Nil
  then show ?case by simp
next
  case (Cons l ls)
  show ?case
  proof (cases "l = c")
    case True
    then show ?thesis using Cons.IH[of s c "d + 1"] by (cases "ls = []") auto
  next
    case False
    then show ?thesis by simp
  qed
qed

lemma encode_last:
  "ls \<noteq> [] \<Longrightarrow> block_end (last (encode s c d ls)) = d + int (length ls) - 1"
proof (induction ls arbitrary: s c d)
  case Nil
  then show ?case by simp
next
  case (Cons l ls)
  show ?case
  proof (cases "ls = []")
    case True
    then show ?thesis by simp
  next
    case False
    then have "encode (if l \<noteq> c then d else s) l (d + 1) ls \<noteq> []" by (rule encode_nonempty)
    then show ?thesis using False Cons.IH[OF False, of "if l \<noteq> c then d else s" l "d + 1"]
      by simp
  qed
qed

lemma encode_contiguous:
  "ls \<noteq> [] \<Longrightarrow> s < d \<or> (s = d \<and> hd ls = c) \<Longrightarrow>
   contiguous s (encode s c d ls) (d + int (length ls) - 1)"
proof (induction ls arbitrary: s c d)
  case Nil
  then show ?case by simp
next
  case (Cons l ls)
  show ?case
  proof (cases "ls = []")
    case True
    then show ?thesis using Cons.prems by auto
  next
    case False
    have a: "contiguous d (encode d l (d + 1) ls) (d + 1 + int (length ls) - 1)"
      using Cons.IH[OF False, of d "d + 1" l] by simp
    have b: "s < d + 1 \<Longrightarrow> contiguous s (encode s l (d + 1) ls) (d + 1 + int (length ls) - 1)"
      using Cons.IH[OF False, of s "d + 1" l] by simp
    show ?thesis using False Cons.prems a b by auto
  qed
qed

lemma contiguous_le: "contiguous s bs e \<Longrightarrow> s \<le> e + 1"
  by (induction bs arbitrary: s) force+

lemma contiguous_days: "contiguous s bs e \<Longrightarrow> concat (map block_days bs) = [s..e]"
proof (induction bs arbitrary: s)
  case Nil
  then show ?case by simp
next
  case (Cons b bs)
  then have c: "contiguous (block_end b + 1) bs e" and s: "block_start b = s" "s \<le> block_end b"
    by auto
  have "block_end b \<le> e" using contiguous_le[OF c] by simp
  with s(2) have "[s..e] = [s..block_end b] @ [block_end b + 1..e]"
    by (rule upto_split2)
  then show ?case using Cons.IH[OF c] s by (simp add: block_days_def)
qed



lemma encode_distinct_adj: "distinct_adj (map block_vehicle (encode s c d ls))"
proof (induction ls arbitrary: s c d)
  case Nil
  then show ?case by simp
next
  case (Cons l ls)
  show ?case
  proof (cases "ls = []")
    case True
    then show ?thesis by simp
  next
    case False
    let ?r = "encode (if l \<noteq> c then d else s) l (d + 1) ls"
    have ne: "?r \<noteq> []" using False by (rule encode_nonempty)
    have hd: "block_vehicle (hd ?r) = l" using encode_hd[OF False] by simp
    have "hd (map block_vehicle ?r) = l" using ne hd by (simp add: hd_map)
    then show ?thesis using False Cons.IH[of "if l \<noteq> c then d else s" l "d + 1"] ne
      by (auto simp: distinct_adj_Cons)
  qed
qed

lemma encode_open:
  "ls \<noteq> [] \<Longrightarrow> s \<le> x \<Longrightarrow> x < d \<Longrightarrow> vehicle_on (encode s c d ls) x = Some c"
proof (induction ls arbitrary: s c d)
  case Nil
  then show ?case by simp
next
  case (Cons l ls)
  show ?case
  proof (cases "l = c")
    case True
    show ?thesis
    proof (cases "ls = []")
      case True
      then show ?thesis using \<open>l = c\<close> Cons.prems by (simp add: vehicle_on_Cons)
    next
      case False
      then show ?thesis using \<open>l = c\<close> Cons.prems Cons.IH[OF False, of s "d + 1" c] by simp
    qed
  next
    case False
    then show ?thesis using Cons.prems by (simp add: vehicle_on_Cons)
  qed
qed

lemma encode_label:
  "k < length ls \<Longrightarrow> s \<le> d \<Longrightarrow> vehicle_on (encode s c d ls) (d + int k) = Some (ls ! k)"
proof (induction ls arbitrary: s c d k)
  case Nil
  then show ?case by simp
next
  case (Cons l ls)
  let ?s = "if l \<noteq> c then d else s"
  have s': "?s \<le> d" using Cons.prems(2) by simp
  have pre: "vehicle_on (encode s c d (l # ls)) x =
      vehicle_on (if ls = [] then [\<lparr>block_start = ?s, block_end = d, block_vehicle = l\<rparr>]
                  else encode ?s l (d + 1) ls) x" if "d \<le> x" for x
    using that by (simp add: vehicle_on_Cons)
  show ?case
  proof (cases k)
    case 0
    show ?thesis
    proof (cases "ls = []")
      case True
      then show ?thesis using 0 s' pre[of d] by (simp add: vehicle_on_Cons)
    next
      case False
      have "vehicle_on (encode ?s l (d + 1) ls) d = Some l"
        using encode_open[OF False, of ?s d "d + 1" l] s' by simp
      then show ?thesis using 0 False pre[of d] by simp
    qed
  next
    case (Suc k')
    then have k': "k' < length ls" using Cons.prems(1) by simp
    then have ne: "ls \<noteq> []" by auto
    have ih: "vehicle_on (encode ?s l (d + 1) ls) (d + 1 + int k') = Some (ls ! k')"
      using s' by (intro Cons.IH[OF k']) simp
    have e2: "d + int k = d + 1 + int k'" using Suc by simp
    have "vehicle_on (encode s c d (l # ls)) (d + int k) =
          vehicle_on (if ls = [] then [\<lparr>block_start = ?s, block_end = d, block_vehicle = l\<rparr>]
                  else encode ?s l (d + 1) ls) (d + int k)"
      by (rule pre) simp
    also have "\<dots> = vehicle_on (encode ?s l (d + 1) ls) (d + int k)"
      using ne by (simp only: if_False)
    also have "\<dots> = Some (ls ! k')"
      by (simp only: e2 ih)
    finally show ?thesis using Suc by simp
  qed
qed

lemma day_labels_nth:
  "k < length ds \<Longrightarrow> bi < length backup \<Longrightarrow>
   day_labels backup hs vehicle ds bi ! k =
     (if ds ! k \<in> set hs
      then backup ! ((bi + length (filter (\<lambda>x. x \<in> set hs) (take k ds))) mod length backup) @ '' (H)''
      else vehicle)"
proof (induction ds arbitrary: bi k)
  case Nil
  then show ?case by simp
next
  case (Cons d ds)
  show ?case
  proof (cases k)
    case 0
    then show ?thesis using Cons.prems(2) by simp
  next
    case (Suc k')
    then have k': "k' < length ds" using Cons.prems(1) by simp
    have "0 < length backup" using Cons.prems(2) by (rule less_le_trans[OF le0[THEN le_less_trans]]) simp
    then have b: "Suc bi mod length backup < length backup" by (rule mod_less_divisor)
    have cnt: "(Suc bi mod length backup + m) mod length backup = Suc (bi + m) mod length backup" for m
      by (simp add: mod_add_left_eq)
    show ?thesis using Suc Cons.IH[OF k' Cons.prems(2)] Cons.IH[OF k' b] by (simp add: cnt)
  qed
qed

subsection \<open>The route loop\<close>

lemma month_length_bounds:
  assumes "1 \<le> month" "month \<le> 12"
  shows "28 \<le> month_length year month \<and> month_length year month \<le> 31"
proof -
  have "month = 1 \<or> month = 2 \<or> month = 3 \<or> month = 4 \<or> month = 5 \<or> month = 6 \<or>
        month = 7 \<or> month = 8 \<or> month = 9 \<or> month = 10 \<or> month = 11 \<or> month = 12"
    using assms by arith
  then show ?thesis
    by (elim disjE) (simp_all add: month_length_def mdays_def)
qed

lemma day_loop_no_backup:
  assumes "holidays vehicle = Some hs"
  shows "x \<in> set hs \<Longrightarrow> d \<le> x \<Longrightarrow> x \<le> n \<Longrightarrow>
    day_loop holidays [] vehicle n [d..n] blocks s c bi = Inl IndexError"
proof (induction d n arbitrary: blocks s c rule: upto.induct)
  case (1 d n)
  then have le: "d \<le> n" by simp
  have u: "[d..n] = d # [d + 1..n]" using le by (rule upto_rec1)
  show ?case
  proof (cases "d \<in> set hs")
    case True
    then show ?thesis unfolding u using assms by (simp add: assign_vehicle_def)
  next
    case False
    then have "d + 1 \<le> x" using "1.prems"(1,2) by (cases "d = x") auto
    from "1.IH"[OF le "1.prems"(1) this "1.prems"(3)]
    show ?thesis unfolding u using assms False by (simp add: assign_vehicle_def Let_def)
  qed
qed

lemma substitutions_routes_Suc:
  "substitutions_routes holidays fixed n (Suc k) =
     substitutions_routes holidays fixed n k + substitutions_upto holidays (fixed ! (k mod length fixed)) n"
  by (simp add: substitutions_routes_def)

lemma route_loop_eq:
  assumes "fixed \<noteq> []" "set fixed \<subseteq> dom holidays" "backup \<noteq> []"
  shows "route_loop holidays fixed backup n (enumerate k rs) tt
           (substitutions_routes holidays fixed n k mod length backup) =
         Inr (fold (\<lambda>(i, r). AList.update r (route_blocks holidays fixed backup n i)) (enumerate k rs) tt,
              substitutions_routes holidays fixed n (k + length rs) mod length backup)"
proof (induction rs arbitrary: k tt)
  case Nil
  then show ?case by simp
next
  case (Cons r rs)
  let ?v = "fixed ! (k mod length fixed)"
  let ?bi = "substitutions_routes holidays fixed n k mod length backup"
  have "?v \<in> set fixed" using assms(1) by simp
  then obtain hs where hs: "holidays ?v = Some hs" using assms(2) by auto
  have hl: "holiday_list holidays ?v = hs" using hs by (simp add: holiday_list_def)
  have bi: "?bi < length backup" using assms(3) by simp
  have d: "day_loop holidays backup ?v n [1..n] [] 1 ?v ?bi =
      Inr ([] @ encode 1 ?v 1 (day_labels backup hs ?v [1..n] ?bi),
           (?bi + length (filter (\<lambda>x. x \<in> set hs) [1..n])) mod length backup)"
    using day_loop_encode[where holidays = holidays and vehicle = ?v and hs = hs, OF hs assms(3) bi] .
  have idx: "(?bi + length (filter (\<lambda>x. x \<in> set hs) [1..n])) mod length backup =
       substitutions_routes holidays fixed n (Suc k) mod length backup"
    by (simp add: substitutions_routes_Suc substitutions_upto_def hl mod_add_left_eq)
  have rb: "encode 1 ?v 1 (day_labels backup hs ?v [1..n] ?bi) = route_blocks holidays fixed backup n k"
    by (simp add: route_blocks_def hl Let_def)
  show ?case
    using assms(1) Cons.IH[of "Suc k" "AList.update r (route_blocks holidays fixed backup n k) tt"]
    by (simp add: d idx rb Let_def del: upto.simps)
qed

lemma route_loop_no_fixed:
  "rs \<noteq> [] \<Longrightarrow> route_loop holidays [] backup n (enumerate k rs) tt bi = Inl ZeroDivisionError"
  by (cases rs) auto

lemma route_loop_no_backup:
  assumes "rs \<noteq> []" "fixed \<noteq> []" "set fixed \<subseteq> dom holidays" "holidays_ok n holidays"
    "\<forall>v\<in>set fixed. holidays v \<noteq> Some []"
  shows "route_loop holidays fixed [] n (enumerate k rs) tt bi = Inl IndexError"
proof -
  obtain r rs' where rs: "rs = r # rs'" using assms(1) by (cases rs) auto
  let ?v = "fixed ! (k mod length fixed)"
  have v: "?v \<in> set fixed" using assms(2) by simp
  then obtain hs where hs: "holidays ?v = Some hs" using assms(3) by auto
  then have "hs \<noteq> []" using assms(5) v by auto
  then obtain x where x: "x \<in> set hs" by (cases hs) auto
  then have "6 \<le> x \<and> x \<le> n" using assms(4) hs unfolding holidays_ok_def by blast
  then have "day_loop holidays [] ?v n [1..n] [] 1 ?v bi = Inl IndexError"
    using day_loop_no_backup[where holidays = holidays and vehicle = ?v and hs = hs, OF hs x, of 1 n] by simp
  then show ?thesis using assms(2) rs by (simp add: Let_def del: upto.simps)
qed

lemma fold_update_distinct:
  "distinct (map fst tt) \<Longrightarrow> distinct (map fst (fold (\<lambda>(i, r). AList.update r (f i)) irs tt))"
  by (induction irs arbitrary: tt) (auto simp: distinct_update)

lemma fold_update_keys:
  "fst ` set (fold (\<lambda>(i, r). AList.update r (f i)) irs tt) = snd ` set irs \<union> fst ` set tt"
proof (induction irs arbitrary: tt)
  case Nil
  then show ?case by simp
next
  case (Cons ir irs)
  obtain i r where ir: "ir = (i, r)" by (cases ir)
  have "fst ` set (fold (\<lambda>(i, r). AList.update r (f i)) (ir # irs) tt) =
        snd ` set irs \<union> fst ` set (AList.update r (f i) tt)"
    using Cons.IH[of "AList.update r (f i) tt"] ir by simp
  also have "\<dots> = snd ` set irs \<union> ({r} \<union> fst ` set tt)"
    by (simp only: dom_update)
  finally show ?case using ir by auto
qed

lemma fold_update_lookup:
  "map_of (fold (\<lambda>(i, r). AList.update r (f i)) (enumerate k rs) []) route = Some blocks \<Longrightarrow>
   \<exists>i. emitted_at rs i route \<and> blocks = f (k + i)"
proof (induction rs arbitrary: blocks rule: rev_induct)
  case Nil
  then show ?case by simp
next
  case (snoc r rs)
  let ?prev = "fold (\<lambda>(i, r). AList.update r (f i)) (enumerate k rs) []"
  have e: "map_of (fold (\<lambda>(i, r). AList.update r (f i)) (enumerate k (rs @ [r])) []) =
           (map_of ?prev)(r \<mapsto> f (k + length rs))"
    by (simp add: enumerate_append_eq update_conv')
  show ?case
  proof (cases "route = r")
    case True
    then have "blocks = f (k + length rs)" using snoc.prems e by simp
    moreover have "emitted_at (rs @ [r]) (length rs) route"
      using True by (simp add: emitted_at_def)
    ultimately show ?thesis by blast
  next
    case False
    then have "map_of ?prev route = Some blocks" using snoc.prems e by simp
    from snoc.IH[OF this] obtain i where i: "emitted_at rs i route" "blocks = f (k + i)" by blast
    then have "emitted_at (rs @ [r]) i route"
      using False by (auto simp: emitted_at_def nth_append)
    then show ?thesis using i(2) by blast
  qed
qed

subsection \<open>The whole run\<close>

lemma generate_unfold:
  assumes "1 \<le> month" "month \<le> 12"
    and "assign_holidays (fixed_vehicles_of routes vehicles) (month_length year month) = Inr holidays"
  shows "generate_block_timetable routes vehicles year month =
     (case route_loop holidays (fixed_vehicles_of routes vehicles) (backup_vehicles_of routes vehicles)
             (month_length year month) (enumerate 0 routes) [] 0 of
        Inl e \<Rightarrow> Inl e
      | Inr (timetable_blocks, backup_index) \<Rightarrow> Inr timetable_blocks)"
  using assms
  by (simp add: generate_block_timetable_def monthrange_days_def fixed_vehicles_of_def
      backup_vehicles_of_def Let_def)

lemma generate_bad_month:
  "\<not> (1 \<le> month \<and> month \<le> 12) \<Longrightarrow>
   generate_block_timetable routes vehicles year month = Inl IllegalMonthError"
  by (simp add: generate_block_timetable_def monthrange_days_def Let_def)

lemma substitutions_routes_0 [simp]: "substitutions_routes holidays fixed n 0 = 0"
  by (simp add: substitutions_routes_def)

lemma generate_success:
  assumes "routes \<noteq> []" "length routes < length vehicles" "1 \<le> month" "month \<le> 12"
  shows "\<exists>holidays. assign_holidays (fixed_vehicles_of routes vehicles) (month_length year month) = Inr holidays \<and>
     dom holidays = set (fixed_vehicles_of routes vehicles) \<and>
     holidays_ok (month_length year month) holidays \<and>
     generate_block_timetable routes vehicles year month =
       Inr (fold (\<lambda>(i, r). AList.update r
                   (route_blocks holidays (fixed_vehicles_of routes vehicles)
                      (backup_vehicles_of routes vehicles) (month_length year month) i))
              (enumerate 0 routes) [])"
proof -
  let ?fixed = "fixed_vehicles_of routes vehicles"
  let ?backup = "backup_vehicles_of routes vehicles"
  let ?n = "month_length year month"
  from assign_holidays_total[of ?fixed ?n] obtain holidays where
    h: "assign_holidays ?fixed ?n = Inr holidays" "dom holidays = set ?fixed" "holidays_ok ?n holidays"
    by blast
  have f: "?fixed \<noteq> []" using assms(1,2) by (auto simp: fixed_vehicles_of_def)
  have b: "?backup \<noteq> []" using assms(2) by (simp add: backup_vehicles_of_def)
  have sub: "set ?fixed \<subseteq> dom holidays" using h(2) by simp
  have "route_loop holidays ?fixed ?backup ?n (enumerate 0 routes) []
           (substitutions_routes holidays ?fixed ?n 0 mod length ?backup) =
         Inr (fold (\<lambda>(i, r). AList.update r (route_blocks holidays ?fixed ?backup ?n i)) (enumerate 0 routes) [],
              substitutions_routes holidays ?fixed ?n (0 + length routes) mod length ?backup)"
    by (rule route_loop_eq[OF f sub b])
  then have "generate_block_timetable routes vehicles year month =
       Inr (fold (\<lambda>(i, r). AList.update r (route_blocks holidays ?fixed ?backup ?n i)) (enumerate 0 routes) [])"
    using generate_unfold[OF assms(3,4) h(1)] by simp
  then show ?thesis using h by blast
qed

lemma generate_failure:
  assumes "routes \<noteq> []" "length vehicles \<le> length routes"
  shows "generate_block_timetable routes vehicles year month =
     Inl (if \<not> (1 \<le> month \<and> month \<le> 12) then IllegalMonthError
          else if vehicles = [] then ZeroDivisionError else IndexError)"
proof (cases "1 \<le> month \<and> month \<le> 12")
  case False
  then show ?thesis using generate_bad_month[OF False] by simp
next
  case True
  let ?fixed = "fixed_vehicles_of routes vehicles"
  let ?backup = "backup_vehicles_of routes vehicles"
  let ?n = "month_length year month"
  have n: "10 \<le> ?n" using month_length_bounds[of month year] True by simp
  from assign_holidays_total[of ?fixed ?n] n obtain holidays where
    h: "assign_holidays ?fixed ?n = Inr holidays" "dom holidays = set ?fixed" "holidays_ok ?n holidays"
       "\<forall>v\<in>set ?fixed. holidays v \<noteq> Some []"
    by blast
  have fx: "?fixed = vehicles" using assms(2) by (simp add: fixed_vehicles_of_def)
  have bk: "?backup = []" using assms(2) by (simp add: backup_vehicles_of_def)
  have u: "generate_block_timetable routes vehicles year month =
     (case route_loop holidays ?fixed ?backup ?n (enumerate 0 routes) [] 0 of
        Inl e \<Rightarrow> Inl e
      | Inr (timetable_blocks, backup_index) \<Rightarrow> Inr timetable_blocks)"
    using True h(1) by (intro generate_unfold) auto
  show ?thesis
  proof (cases "vehicles = []")
    case v: True
    have "route_loop holidays [] ?backup ?n (enumerate 0 routes) [] 0 = Inl ZeroDivisionError"
      using assms(1) by (rule route_loop_no_fixed)
    then show ?thesis using u v fx True by simp
  next
    case v: False
    have "route_loop holidays ?fixed [] ?n (enumerate 0 routes) [] 0 = Inl IndexError"
      using assms(1) v h(2,3,4) fx by (intro route_loop_no_backup) auto
    then show ?thesis using u v bk True by simp
  qed
qed

lemma generate_no_routes:
  assumes "generate_block_timetable [] vehicles year month = Inr tt"
  shows "tt = []"
proof (cases "1 \<le> month \<and> month \<le> 12")
  case False
  then show ?thesis using generate_bad_month[OF False, of "[]" vehicles year] assms by simp
next
  case True
  from assign_holidays_total[of "fixed_vehicles_of [] vehicles" "month_length year month"]
  obtain holidays where
    h: "assign_holidays (fixed_vehicles_of [] vehicles) (month_length year month) = Inr holidays" by blast
  show ?thesis using generate_unfold[of month "[]" vehicles year holidays] True h assms by simp
qed

lemma generate_entry:
  assumes "generate_block_timetable routes vehicles year month = Inr tt" "(route, blocks) \<in> set tt"
  shows "\<exists>r_idx holidays hs. emitted_at routes r_idx route \<and>
     length routes < length vehicles \<and> 1 \<le> month \<and> month \<le> 12 \<and>
     assign_holidays (fixed_vehicles_of routes vehicles) (month_length year month) = Inr holidays \<and>
     holidays_ok (month_length year month) holidays \<and>
     holidays (route_vehicle routes vehicles r_idx) = Some hs \<and>
     blocks = route_blocks holidays (fixed_vehicles_of routes vehicles)
                (backup_vehicles_of routes vehicles) (month_length year month) r_idx"
proof -
  let ?fixed = "fixed_vehicles_of routes vehicles"
  let ?backup = "backup_vehicles_of routes vehicles"
  let ?n = "month_length year month"
  have ne: "routes \<noteq> []" using assms generate_no_routes by fastforce
  have len: "length routes < length vehicles"
  proof (rule ccontr)
    assume "\<not> length routes < length vehicles"
    then have "length vehicles \<le> length routes" by simp
    from generate_failure[OF ne this, of year month] assms(1) show False by simp
  qed
  have m: "1 \<le> month \<and> month \<le> 12"
    using generate_bad_month[of month routes vehicles year] assms(1) by auto
  from generate_success[OF ne len, of month year] m obtain holidays where
    h: "assign_holidays ?fixed ?n = Inr holidays" "dom holidays = set ?fixed" "holidays_ok ?n holidays"
       "generate_block_timetable routes vehicles year month =
          Inr (fold (\<lambda>(i, r). AList.update r (route_blocks holidays ?fixed ?backup ?n i)) (enumerate 0 routes) [])"
    by blast
  let ?f = "route_blocks holidays ?fixed ?backup ?n"
  have tt: "tt = fold (\<lambda>(i, r). AList.update r (?f i)) (enumerate 0 routes) []"
    using h(4) assms(1) by simp
  have "distinct (map fst tt)" unfolding tt by (rule fold_update_distinct) simp
  then have "map_of tt route = Some blocks" using assms(2) by simp
  from fold_update_lookup[OF this[unfolded tt]] obtain i where
    i: "emitted_at routes i route" "blocks = ?f (0 + i)" by blast
  have "?fixed \<noteq> []" using ne len by (auto simp: fixed_vehicles_of_def)
  then have "i mod length ?fixed < length ?fixed" by simp
  then have "route_vehicle routes vehicles i \<in> set ?fixed"
    unfolding route_vehicle_def by (rule nth_mem)
  then obtain hs where "holidays (route_vehicle routes vehicles i) = Some hs" using h(2) by auto
  then show ?thesis using i len m h(1,3) by auto
qed

subsection \<open>The blocks of one route\<close>

lemma holidays_ok_list: "holidays_ok n holidays \<Longrightarrow> d \<in> set (holiday_list holidays v) \<Longrightarrow> 6 \<le> d \<and> d \<le> n"
  unfolding holidays_ok_def holiday_list_def by (cases "holidays v") auto

lemma route_blocks_covers:
  assumes "holidays_ok n holidays" "1 \<le> n"
  shows "covers_month n (route_blocks holidays fixed backup n r)"
proof -
  let ?v = "fixed ! (r mod length fixed)"
  let ?hs = "holiday_list holidays ?v"
  let ?bi = "substitutions_routes holidays fixed n r mod length backup"
  let ?ls = "day_labels backup ?hs ?v [1..n] ?bi"
  have rb: "route_blocks holidays fixed backup n r = encode 1 ?v 1 ?ls"
    by (simp add: route_blocks_def Let_def)
  have one: "1 \<notin> set ?hs" using holidays_ok_list[OF assms(1), of 1 ?v] by auto
  have u: "[1..n] = 1 # [2..n]" using assms(2) upto_rec1[of 1 n] by simp
  have ne: "?ls \<noteq> []" using assms(2) by simp
  have hd: "hd ?ls = ?v" unfolding u using one by simp
  have len: "1 + int (length ?ls) - 1 = n" using assms(2) by simp
  have c: "contiguous 1 (encode 1 ?v 1 ?ls) n"
    using encode_contiguous[OF ne, of 1 1 ?v] hd len by simp
  have "encode 1 ?v 1 ?ls \<noteq> []" using ne by (rule encode_nonempty)
  moreover have "block_start (hd (encode 1 ?v 1 ?ls)) = 1" using encode_hd[OF ne] by simp
  moreover have "block_end (last (encode 1 ?v 1 ?ls)) = n" using encode_last[OF ne, of 1 ?v 1] len by simp
  moreover have "concat (map block_days (encode 1 ?v 1 ?ls)) = [1..n]" using c by (rule contiguous_days)
  ultimately show ?thesis unfolding rb covers_month_def using c by simp
qed

lemma route_blocks_distinct_adj:
  "distinct_adj (map block_vehicle (route_blocks holidays fixed backup n r))"
  by (simp add: route_blocks_def Let_def encode_distinct_adj)

lemma take_upto: "1 \<le> d \<Longrightarrow> d \<le> n \<Longrightarrow> take (nat (d - 1)) [1..n] = [1..d - 1]"
proof -
  assume a: "1 \<le> d" "d \<le> n"
  then have "[1..n] = [1..d - 1] @ [d..n]" by (rule upto_split1)
  moreover have "length [1..d - 1] = nat (d - 1)" by simp
  ultimately show ?thesis by (metis append_eq_conv_conj)
qed

lemma substitutions_before_eq:
  "substitutions_before holidays fixed n r d =
     substitutions_routes holidays fixed n r + substitutions_upto holidays (fixed ! (r mod length fixed)) (d - 1)"
  by (simp add: substitutions_before_def substitutions_routes_def)

lemma route_blocks_label:
  assumes "backup \<noteq> []" "1 \<le> d" "d \<le> n"
  shows "vehicle_on (route_blocks holidays fixed backup n r) d =
     Some (if d \<in> set (holiday_list holidays (fixed ! (r mod length fixed)))
           then backup ! (substitutions_before holidays fixed n r d mod length backup) @ '' (H)''
           else fixed ! (r mod length fixed))"
proof -
  let ?v = "fixed ! (r mod length fixed)"
  let ?hs = "holiday_list holidays ?v"
  let ?bi = "substitutions_routes holidays fixed n r mod length backup"
  let ?ls = "day_labels backup ?hs ?v [1..n] ?bi"
  let ?k = "nat (d - 1)"
  have rb: "route_blocks holidays fixed backup n r = encode 1 ?v 1 ?ls"
    by (simp add: route_blocks_def Let_def)
  have k: "?k < length [1..n]" using assms(2,3) by simp
  have bi: "?bi < length backup" using assms(1) by simp
  have d: "1 + int ?k = d" using assms(2) by simp
  have nth: "[1..n] ! ?k = d" using assms(2,3) by simp
  have "vehicle_on (encode 1 ?v 1 ?ls) (1 + int ?k) = Some (?ls ! ?k)"
    using k by (intro encode_label) simp_all
  also have "?ls ! ?k =
     (if [1..n] ! ?k \<in> set ?hs
      then backup ! ((?bi + length (filter (\<lambda>x. x \<in> set ?hs) (take ?k [1..n]))) mod length backup) @ '' (H)''
      else ?v)"
    using k bi by (rule day_labels_nth)
  also have "(?bi + length (filter (\<lambda>x. x \<in> set ?hs) (take ?k [1..n]))) mod length backup =
     substitutions_before holidays fixed n r d mod length backup"
    by (simp add: take_upto[OF assms(2,3)] substitutions_before_eq substitutions_upto_def mod_add_left_eq)
  finally show ?thesis unfolding rb d nth .
qed

subsection \<open>The entries of an emitted timetable\<close>

lemma generate_entry_blocks:
  assumes "generate_block_timetable routes vehicles year month = Inr tt" "(route, blocks) \<in> set tt"
  shows "\<exists>r_idx holidays hs. emitted_at routes r_idx route \<and>
     assign_holidays (fixed_vehicles_of routes vehicles) (month_length year month) = Inr holidays \<and>
     holidays (route_vehicle routes vehicles r_idx) = Some hs \<and>
     holidays_of (fixed_vehicles_of routes vehicles) (month_length year month)
        (route_vehicle routes vehicles r_idx) = Some hs \<and>
     (\<forall>day\<in>set hs. 6 \<le> day \<and> day \<le> month_length year month) \<and>
     backup_vehicles_of routes vehicles \<noteq> [] \<and>
     covers_month (month_length year month) blocks \<and>
     distinct_adj (map block_vehicle blocks) \<and>
     (\<forall>day\<in>{1..month_length year month}. vehicle_on blocks day =
        Some (if day \<in> set hs
              then backup_vehicles_of routes vehicles !
                     (substitutions_before holidays (fixed_vehicles_of routes vehicles)
                        (month_length year month) r_idx day
                      mod length (backup_vehicles_of routes vehicles)) @ '' (H)''
              else route_vehicle routes vehicles r_idx))"
proof -
  let ?fixed = "fixed_vehicles_of routes vehicles"
  let ?backup = "backup_vehicles_of routes vehicles"
  let ?n = "month_length year month"
  from generate_entry[OF assms] obtain r_idx holidays hs where
    e: "emitted_at routes r_idx route" "length routes < length vehicles" "1 \<le> month" "month \<le> 12"
       "assign_holidays ?fixed ?n = Inr holidays" "holidays_ok ?n holidays"
       "holidays (route_vehicle routes vehicles r_idx) = Some hs"
       "blocks = route_blocks holidays ?fixed ?backup ?n r_idx"
    by blast
  have n: "1 \<le> ?n" using month_length_bounds[OF e(3,4), of year] by simp
  have b: "?backup \<noteq> []" using e(2) by (simp add: backup_vehicles_of_def)
  have hl: "holiday_list holidays (?fixed ! (r_idx mod length ?fixed)) = hs"
    using e(7) by (simp add: holiday_list_def route_vehicle_def)
  have ho: "holidays_of ?fixed ?n (route_vehicle routes vehicles r_idx) = Some hs"
    using e(5,7) by (simp add: holidays_of_def)
  have rng: "\<forall>day\<in>set hs. 6 \<le> day \<and> day \<le> ?n"
    using e(6,7) unfolding holidays_ok_def by blast
  have cov: "covers_month ?n blocks" unfolding e(8) using e(6) n by (rule route_blocks_covers)
  have adj: "distinct_adj (map block_vehicle blocks)" unfolding e(8) by (rule route_blocks_distinct_adj)
  have lab: "\<forall>day\<in>{1..?n}. vehicle_on blocks day =
        Some (if day \<in> set hs
              then ?backup ! (substitutions_before holidays ?fixed ?n r_idx day mod length ?backup) @ '' (H)''
              else route_vehicle routes vehicles r_idx)"
  proof
    fix day assume "day \<in> {1..?n}"
    then have d: "1 \<le> day" "day \<le> ?n" by auto
    show "vehicle_on blocks day =
        Some (if day \<in> set hs
              then ?backup ! (substitutions_before holidays ?fixed ?n r_idx day mod length ?backup) @ '' (H)''
              else route_vehicle routes vehicles r_idx)"
      unfolding e(8) using route_blocks_label[OF b d, of holidays ?fixed r_idx]
      by (simp only: hl route_vehicle_def)
  qed
  show ?thesis using e(1,5,7) ho rng b cov adj lab by blast
qed



subsection \<open>The example runs, evaluated\<close>

lemma example_run:
  "generate_block_timetable example_routes example_vehicles 2025 4 = Inr example_timetable"
  by code_simp

lemma example_member: "(''R2'', example_blocks_R2) \<in> set example_timetable"
  by (simp add: example_timetable_def)

lemma duplicate_run:
  "generate_block_timetable [''R1'', ''R2''] [''A'', ''A'', ''B''] 2025 2 =
     Inr [(''R1'', duplicate_blocks), (''R2'', duplicate_blocks)]"
  by code_simp

lemma marked_run:
  "generate_block_timetable [''R1''] [''V(H)'', ''B''] 2025 2 = Inr [(''R1'', marked_blocks)]"
  by code_simp

lemma try_except_pass_always: "try_except_pass r = Inr ()"
  by (cases r) (simp_all add: try_except_pass_def)

lemma example_marker_facts:
  "\<not> sublist ''(H)'' ''V1''" "\<not> sublist ''(H)'' ''V2''"
  "sublist ''(H)'' ''V3 (H)''" "sublist ''(H)'' ''V4 (H)''"
  by code_simp+

lemma example_vehicle_facts:
  "sublist ''V1'' ''V1''" "\<not> sublist ''V2'' ''V1''" "\<not> sublist ''V3'' ''V1''" "\<not> sublist ''V4'' ''V1''"
  "\<not> sublist ''V1'' ''V2''" "sublist ''V2'' ''V2''" "\<not> sublist ''V3'' ''V2''" "\<not> sublist ''V4'' ''V2''"
  by code_simp+

lemma example_summary:
  "generate_summary example_timetable (take 14 example_vehicles) (month_length 2025 4) =
     [\<lparr>row_vehicle = ''V1'', row_working_days = 25, row_holidays = 5\<rparr>,
      \<lparr>row_vehicle = ''V2'', row_working_days = 26, row_holidays = 4\<rparr>,
      \<lparr>row_vehicle = ''V3'', row_working_days = 0, row_holidays = 30\<rparr>,
      \<lparr>row_vehicle = ''V4'', row_working_days = 0, row_holidays = 30\<rparr>]"
  by (simp add: generate_summary_def vehicle_work_days_def block_work_days_def example_timetable_def
      example_vehicles_def example_blocks_R1_def example_blocks_R2_def month_length_def mdays_def
      example_marker_facts example_vehicle_facts del: sublist_Cons_right)

lemma example_backup_holidays:
  "holidays_of (fixed_vehicles_of example_routes example_vehicles) (month_length 2025 4) ''V3'' = None"
  "holidays_of (fixed_vehicles_of example_routes example_vehicles) (month_length 2025 4) ''V4'' = None"
  by code_simp+


lemma example_month: "month_length 2025 4 = 30"
  by (simp add: month_length_def mdays_def)

lemma example_fixed: "fixed_vehicles_of example_routes example_vehicles = [''V1'', ''V2'']"
  by (simp add: fixed_vehicles_of_def example_routes_def example_vehicles_def)

lemma example_backup: "backup_vehicles_of example_routes example_vehicles = [''V3'', ''V4'']"
  by (simp add: backup_vehicles_of_def example_routes_def example_vehicles_def)

lemma example_R2_vehicle:
  "route_vehicle example_routes example_vehicles 1 = ''V2''"
  "route_vehicle example_routes example_vehicles (Suc 0) = ''V2''"
  by (simp_all add: route_vehicle_def example_fixed)

lemma example_holidays:
  "holidays_of [''V1'', ''V2''] 30 ''V1'' = Some [6, 12, 18, 24, 30]"
  "holidays_of [''V1'', ''V2''] 30 ''V2'' = Some [7, 13, 19, 25]"
  by code_simp+


subsection \<open>The summary\<close>

lemma block_work_days_add: "block_work_days v w b = w + block_work_days v 0 b"
  by (simp add: block_work_days_def)

lemma foldl_block_work_days:
  "foldl (block_work_days v) w bs = w + sum_list (map (block_work_days v 0) bs)"
proof (induction bs arbitrary: w)
  case Nil
  then show ?case by simp
next
  case (Cons b bs)
  show ?case using Cons.IH[of "block_work_days v w b"] block_work_days_add[of v w b] by simp
qed

lemma vehicle_work_days_sum:
  "vehicle_work_days tt v = sum_list (map (\<lambda>bs. sum_list (map (block_work_days v 0) bs)) (map snd tt))"
proof -
  have "foldl (\<lambda>w bs. foldl (block_work_days v) w bs) w bss =
        w + sum_list (map (\<lambda>bs. sum_list (map (block_work_days v 0) bs)) bss)" for w bss
  proof (induction bss arbitrary: w)
    case Nil
    then show ?case by simp
  next
    case (Cons bs bss)
    show ?case using Cons.IH[of "foldl (block_work_days v) w bs"]
      by (simp add: foldl_block_work_days[of v w bs])
  qed
  then show ?thesis by (simp add: vehicle_work_days_def)
qed

lemma encode_work_days:
  "sum_list (map (block_work_days v 0) (encode s c d ls)) =
     (if ls \<noteq> [] \<and> sublist v c \<and> \<not> sublist ''(H)'' c then d - s else 0) +
     int (length (filter (\<lambda>l. sublist v l \<and> \<not> sublist ''(H)'' l) ls))"
proof (induction ls arbitrary: s c d)
  case Nil
  then show ?case by simp
next
  case (Cons l ls)
  show ?case
  proof (cases "ls = []")
    case True
    then show ?thesis by (auto simp: block_work_days_def)
  next
    case False
    show ?thesis
      using False Cons.IH[of "if l \<noteq> c then d else s" l "d + 1"]
      by (auto simp: block_work_days_def)
  qed
qed

lemma marker_appended: "sublist ''(H)'' (b @ '' (H)'')"
proof -
  have "b @ '' (H)'' = (b @ '' '') @ ''(H)'' @ []" by simp
  then show ?thesis unfolding sublist_def by blast
qed

lemma day_labels_filter:
  assumes "\<And>b. \<not> P (b @ '' (H)'')"
  shows "length (filter P (day_labels backup hs vj ds bi)) =
     (if P vj then length (filter (\<lambda>d. d \<notin> set hs) ds) else 0)"
  by (induction ds arbitrary: bi) (auto simp: assms)

lemma day_labels_work:
  "length (filter (\<lambda>l. sublist v l \<and> \<not> sublist ''(H)'' l) (day_labels backup hs vj ds bi)) =
     (if sublist v vj \<and> \<not> sublist ''(H)'' vj then length (filter (\<lambda>d. d \<notin> set hs) ds) else 0)"
  by (rule day_labels_filter) (simp add: marker_appended)

lemma working_day_count:
  assumes "distinct hs" "set hs \<subseteq> {1..n}"
  shows "int (length (filter (\<lambda>d. d \<notin> set hs) [1..n])) = int (length [1..n]) - int (length hs)"
proof -
  have "length (filter (\<lambda>d. d \<in> set hs) [1..n]) = card ({d. d \<in> set hs} \<inter> set [1..n])"
    by (rule distinct_length_filter) simp
  also have "{d. d \<in> set hs} \<inter> set [1..n] = set hs" using assms(2) by auto
  also have "card (set hs) = length hs" using assms(1) by (rule distinct_card)
  finally have a: "length (filter (\<lambda>d. d \<in> set hs) [1..n]) = length hs" .
  have "length (filter (\<lambda>d. d \<in> set hs) [1..n]) + length (filter (\<lambda>d. \<not> d \<in> set hs) [1..n]) = length [1..n]"
    by (rule sum_length_filter_compl)
  then show ?thesis using a by linarith
qed

lemma distinct_spec_holiday_days: "distinct (spec_holiday_days i n)"
  unfolding spec_holiday_days_def
  by (intro distinct_filter) (simp add: distinct_map inj_on_def)

lemma update_fresh: "k \<notin> fst ` set al \<Longrightarrow> AList.update k v al = al @ [(k, v)]"
  by (induction al) auto

lemma fold_update_fresh:
  "distinct (map snd irs) \<Longrightarrow> snd ` set irs \<inter> fst ` set tt = {} \<Longrightarrow>
   fold (\<lambda>(i, r). AList.update r (f i)) irs tt = tt @ map (\<lambda>(i, r). (r, f i)) irs"
proof (induction irs arbitrary: tt)
  case Nil
  then show ?case by simp
next
  case (Cons ir irs)
  obtain i r where ir: "ir = (i, r)" by (cases ir)
  have fresh: "r \<notin> fst ` set tt" using Cons.prems(2) ir by auto
  have u: "AList.update r (f i) tt = tt @ [(r, f i)]" using fresh by (rule update_fresh)
  have d: "distinct (map snd irs)" using Cons.prems(1) by simp
  have "r \<notin> snd ` set irs" using Cons.prems(1) ir by auto
  then have disj: "snd ` set irs \<inter> fst ` set (tt @ [(r, f i)]) = {}"
    using Cons.prems(2) by auto
  show ?case using Cons.IH[OF d disj] ir u by simp
qed

lemma route_blocks_work:
  "sum_list (map (block_work_days v 0) (route_blocks holidays fixed backup n j)) =
     (if sublist v (fixed ! (j mod length fixed)) \<and> \<not> sublist ''(H)'' (fixed ! (j mod length fixed))
      then int (length (filter (\<lambda>d. d \<notin> set (holiday_list holidays (fixed ! (j mod length fixed)))) [1..n]))
      else 0)"
  by (simp add: route_blocks_def Let_def encode_work_days day_labels_work del: sublist_Cons_right)

lemma count_list_once:
  assumes "i < length xs" "\<forall>j<length xs. j \<noteq> i \<longrightarrow> xs ! j \<noteq> xs ! i"
  shows "count_list xs (xs ! i) = 1"
proof -
  have split: "xs = take i xs @ xs ! i # drop (Suc i) xs" using assms(1) by (rule id_take_nth_drop)
  have a: "xs ! i \<notin> set (take i xs)"
  proof
    assume "xs ! i \<in> set (take i xs)"
    then obtain j where j: "j < length (take i xs)" "take i xs ! j = xs ! i"
      by (auto simp: in_set_conv_nth)
    then have "j < i" "xs ! j = xs ! i" by simp_all
    then show False using assms by auto
  qed
  have b: "xs ! i \<notin> set (drop (Suc i) xs)"
  proof
    assume "xs ! i \<in> set (drop (Suc i) xs)"
    then obtain j where j: "j < length (drop (Suc i) xs)" "drop (Suc i) xs ! j = xs ! i"
      by (auto simp: in_set_conv_nth)
    then have "Suc i + j < length xs" "xs ! (Suc i + j) = xs ! i" by simp_all
    then show False using assms(2) by auto
  qed
  have "count_list xs (xs ! i) = count_list (take i xs @ xs ! i # drop (Suc i) xs) (xs ! i)"
    using split by simp
  also have "\<dots> = 1" using a b by simp
  finally show ?thesis .
qed

text \<open>
  The row of a fixed vehicle among the first 14 is right when the route names are pairwise
  distinct, the vehicle's identifier does not contain \<^verbatim>\<open>(H)\<close> and is not a substring
  of the identifier of another fixed vehicle: its working days are the days of the month
  minus its holidays.
\<close>

lemma summary_row_of_fixed_vehicle:
  assumes gen: "generate_block_timetable routes vehicles year month = Inr tt"
    and dr: "distinct routes"
    and i: "i < length routes" "i < 14"
    and nm: "\<not> holiday_marked (vehicles ! i)"
    and ns: "\<forall>j<length routes. j \<noteq> i \<longrightarrow> \<not> sublist (vehicles ! i) (vehicles ! j)"
  shows "holidays_of (fixed_vehicles_of routes vehicles) (month_length year month) (vehicles ! i) =
           Some (spec_holiday_days i (month_length year month)) \<and>
         generate_summary tt (take 14 vehicles) (month_length year month) ! i =
           \<lparr>row_vehicle = vehicles ! i,
            row_working_days = month_length year month - int (length (spec_holiday_days i (month_length year month))),
            row_holidays = int (length (spec_holiday_days i (month_length year month)))\<rparr>"
proof -
  let ?fixed = "fixed_vehicles_of routes vehicles"
  let ?backup = "backup_vehicles_of routes vehicles"
  let ?n = "month_length year month"
  let ?v = "vehicles ! i"
  let ?L = "length routes"
  let ?hs = "spec_holiday_days i ?n"
  have ne: "routes \<noteq> []" using i(1) by auto
  have len: "?L < length vehicles"
  proof (rule ccontr)
    assume "\<not> ?L < length vehicles"
    then have "length vehicles \<le> ?L" by simp
    from generate_failure[OF ne this, of year month] gen show False by simp
  qed
  have m: "1 \<le> month" "month \<le> 12"
    using generate_bad_month[of month routes vehicles year] gen by auto
  have n: "28 \<le> ?n" using month_length_bounds[OF m, of year] by simp
  from generate_success[OF ne len m, of year] obtain holidays where
    h: "assign_holidays ?fixed ?n = Inr holidays" "holidays_ok ?n holidays"
       "generate_block_timetable routes vehicles year month =
          Inr (fold (\<lambda>(i, r). AList.update r (route_blocks holidays ?fixed ?backup ?n i)) (enumerate 0 routes) [])"
    by blast
  let ?f = "route_blocks holidays ?fixed ?backup ?n"
  have lf: "length ?fixed = ?L" using len by (simp add: fixed_vehicles_of_def)
  have fx: "?fixed ! (j mod length ?fixed) = vehicles ! j" if "j < ?L" for j
    using that lf by (simp add: fixed_vehicles_of_def)
  \<comment> \<open>the emitted dictionary\<close>
  have "tt = fold (\<lambda>(i, r). AList.update r (?f i)) (enumerate 0 routes) []"
    using h(3) gen by simp
  also have "\<dots> = [] @ map (\<lambda>(i, r). (r, ?f i)) (enumerate 0 routes)"
    using dr by (intro fold_update_fresh) simp_all
  finally have tt: "tt = map (\<lambda>(i, r). (r, ?f i)) (enumerate 0 routes)" by simp
  have "map snd tt = map (\<lambda>x. ?f (fst x)) (enumerate 0 routes)"
    unfolding tt by (simp add: case_prod_beta comp_def)
  also have "\<dots> = map ?f (map fst (enumerate 0 routes))"
    by (simp only: map_map comp_def)
  also have "\<dots> = map ?f [0..<?L]" by simp
  finally have vals: "map snd tt = map ?f [0..<?L]" .
  \<comment> \<open>the holidays of the vehicle\<close>
  have once: "occurs_once ?fixed (?fixed ! i)"
  proof -
    have "\<forall>j<length ?fixed. j \<noteq> i \<longrightarrow> ?fixed ! j \<noteq> ?fixed ! i"
    proof (intro allI impI)
      fix j assume j: "j < length ?fixed" "j \<noteq> i"
      then have "\<not> sublist (vehicles ! i) (vehicles ! j)" using ns lf by simp
      then have "vehicles ! j \<noteq> vehicles ! i" by auto
      then show "?fixed ! j \<noteq> ?fixed ! i" using j(1) i(1) lf by (simp add: fixed_vehicles_of_def)
    qed
    then show ?thesis unfolding occurs_once_def using i(1) lf by (intro count_list_once) simp_all
  qed
  have fi: "?fixed ! i = ?v" using i(1) by (simp add: fixed_vehicles_of_def)
  have hv: "holidays ?v = Some ?hs"
    using assign_holidays_once[OF once _ h(1)] i(1) lf fi by simp
  have ho: "holidays_of ?fixed ?n ?v = Some ?hs" using h(1) hv by (simp add: holidays_of_def)
  have hl: "holiday_list holidays ?v = ?hs" using hv by (simp add: holiday_list_def)
  have sub: "set ?hs \<subseteq> {1..?n}"
    using h(2) hv unfolding holidays_ok_def by fastforce
  have cnt: "int (length (filter (\<lambda>d. d \<notin> set ?hs) [1..?n])) = ?n - int (length ?hs)"
    using working_day_count[OF distinct_spec_holiday_days sub] n by simp
  \<comment> \<open>the working days\<close>
  have w: "sum_list (map (block_work_days ?v 0) (?f j)) = (if j = i then ?n - int (length ?hs) else 0)"
    if "j < ?L" for j
  proof (cases "j = i")
    case True
    have "sublist ?v ?v" by simp
    then show ?thesis
      using True nm i(1) cnt
      by (simp add: route_blocks_work fx hl holiday_marked_def del: sublist_Cons_right)
  next
    case False
    then have "\<not> sublist ?v (vehicles ! j)" using ns that by simp
    then show ?thesis using False that by (simp add: route_blocks_work fx del: sublist_Cons_right)
  qed
  have "vehicle_work_days tt ?v = sum_list (map (\<lambda>j. sum_list (map (block_work_days ?v 0) (?f j))) [0..<?L])"
    by (simp add: vehicle_work_days_sum vals comp_def)
  also have "\<dots> = sum_list (map (\<lambda>j. if j = i then ?n - int (length ?hs) else 0) [0..<?L])"
    by (intro arg_cong[where f = sum_list] map_cong refl) (simp add: w)
  also have "\<dots> = (\<Sum>j\<in>set [0..<?L]. if j = i then ?n - int (length ?hs) else 0)"
    by (rule interv_sum_list_conv_sum_set_nat)
  also have "\<dots> = ?n - int (length ?hs)" using i(1) by (simp add: sum.delta)
  finally have work: "vehicle_work_days tt ?v = ?n - int (length ?hs)" .
  have "i < length (take 14 vehicles)" using i len by simp
  then have "generate_summary tt (take 14 vehicles) ?n ! i =
      \<lparr>row_vehicle = ?v, row_working_days = vehicle_work_days tt ?v,
       row_holidays = ?n - vehicle_work_days tt ?v\<rparr>"
    using i(2) by (simp add: generate_summary_def Let_def)
  then show ?thesis using work ho by simp
qed

subsection \<open>The route positions of a run\<close>

lemma emitted_at_unique:
  assumes "emitted_at rs i route" "emitted_at rs j route"
  shows "i = j"
proof -
  have later: "False" if a: "a < b" "b < length rs" "rs ! b = route" "route \<notin> set (drop (Suc a) rs)" for a b
  proof -
    have "b - Suc a < length (drop (Suc a) rs)" using a(1,2) by simp
    moreover have "drop (Suc a) rs ! (b - Suc a) = rs ! b" using a(1,2) by simp
    ultimately have "rs ! b \<in> set (drop (Suc a) rs)" by (metis nth_mem)
    then show False using a(3,4) by simp
  qed
  show ?thesis
  proof (rule ccontr)
    assume "i \<noteq> j"
    then consider "i < j" | "j < i" by linarith
    then show False
      using assms later[of i j] later[of j i] by cases (auto simp: emitted_at_def)
  qed
qed

lemma fold_update_lookup_last:
  assumes "emitted_at rs i route"
  shows "map_of (fold (\<lambda>(i, r). AList.update r (f i)) (enumerate k rs) []) route = Some (f (k + i))"
proof -
  let ?tt = "fold (\<lambda>(i, r). AList.update r (f i)) (enumerate k rs) []"
  have "snd ` set (enumerate k rs) = set (map snd (enumerate k rs))" by (simp only: set_map)
  then have "fst ` set ?tt = set rs" by (simp add: fold_update_keys)
  moreover have "route \<in> set rs" using assms by (auto simp: emitted_at_def)
  ultimately have "map_of ?tt route \<noteq> None" by (simp add: map_of_eq_None_iff)
  then obtain blocks where b: "map_of ?tt route = Some blocks" by auto
  from fold_update_lookup[OF this] obtain j where j: "emitted_at rs j route" "blocks = f (k + j)"
    by blast
  have "j = i" using j(1) assms by (rule emitted_at_unique)
  then show ?thesis using b j(2) by simp
qed

lemma take_enumerate: "take m (enumerate n xs) = enumerate n (take m xs)"
  by (induction xs arbitrary: m n) (auto simp: take_Cons split: nat.splits)

lemma emitted_at_prefix: "i < length rs \<Longrightarrow> emitted_at (take (Suc i) rs) i (rs ! i)"
  by (simp add: emitted_at_def)

lemma generate_position:
  assumes "generate_block_timetable routes vehicles year month = Inr tt" "r_idx < length routes"
  shows "\<exists>holidays hs tt'.
     assign_holidays (fixed_vehicles_of routes vehicles) (month_length year month) = Inr holidays \<and>
     holidays (route_vehicle routes vehicles r_idx) = Some hs \<and>
     holidays_of (fixed_vehicles_of routes vehicles) (month_length year month)
        (route_vehicle routes vehicles r_idx) = Some hs \<and>
     (\<forall>day\<in>set hs. 6 \<le> day \<and> day \<le> month_length year month) \<and>
     backup_vehicles_of routes vehicles \<noteq> [] \<and>
     route_loop holidays (fixed_vehicles_of routes vehicles) (backup_vehicles_of routes vehicles)
        (month_length year month) (take (Suc r_idx) (enumerate 0 routes)) [] 0 =
       Inr (tt', substitutions_routes holidays (fixed_vehicles_of routes vehicles)
                   (month_length year month) (Suc r_idx)
                 mod length (backup_vehicles_of routes vehicles)) \<and>
     map_of tt' (routes ! r_idx) =
       Some (route_blocks holidays (fixed_vehicles_of routes vehicles)
               (backup_vehicles_of routes vehicles) (month_length year month) r_idx) \<and>
     (routes ! r_idx \<notin> set (drop (Suc r_idx) routes) \<longrightarrow>
        map_of tt (routes ! r_idx) =
          Some (route_blocks holidays (fixed_vehicles_of routes vehicles)
                  (backup_vehicles_of routes vehicles) (month_length year month) r_idx)) \<and>
     covers_month (month_length year month)
       (route_blocks holidays (fixed_vehicles_of routes vehicles)
          (backup_vehicles_of routes vehicles) (month_length year month) r_idx) \<and>
     (\<forall>day\<in>{1..month_length year month}.
        vehicle_on (route_blocks holidays (fixed_vehicles_of routes vehicles)
                      (backup_vehicles_of routes vehicles) (month_length year month) r_idx) day =
        Some (if day \<in> set hs
              then backup_vehicles_of routes vehicles !
                     (substitutions_before holidays (fixed_vehicles_of routes vehicles)
                        (month_length year month) r_idx day
                      mod length (backup_vehicles_of routes vehicles)) @ '' (H)''
              else route_vehicle routes vehicles r_idx))"
proof -
  let ?fixed = "fixed_vehicles_of routes vehicles"
  let ?backup = "backup_vehicles_of routes vehicles"
  let ?n = "month_length year month"
  let ?f = "route_blocks holidays ?fixed ?backup ?n"
  have ne: "routes \<noteq> []" using assms(2) by auto
  have len: "length routes < length vehicles"
  proof (rule ccontr)
    assume "\<not> length routes < length vehicles"
    then have "length vehicles \<le> length routes" by simp
    from generate_failure[OF ne this, of year month] assms(1) show False by simp
  qed
  have m: "1 \<le> month" "month \<le> 12"
    using generate_bad_month[of month routes vehicles year] assms(1) by auto
  have n: "1 \<le> ?n" using month_length_bounds[OF m, of year] by simp
  from generate_success[OF ne len m, of year] obtain holidays where
    h: "assign_holidays ?fixed ?n = Inr holidays" "dom holidays = set ?fixed" "holidays_ok ?n holidays"
       "generate_block_timetable routes vehicles year month =
          Inr (fold (\<lambda>(i, r). AList.update r (route_blocks holidays ?fixed ?backup ?n i)) (enumerate 0 routes) [])"
    by blast
  let ?f = "route_blocks holidays ?fixed ?backup ?n"
  have f: "?fixed \<noteq> []" using ne len by (auto simp: fixed_vehicles_of_def)
  have b: "?backup \<noteq> []" using len by (simp add: backup_vehicles_of_def)
  have sub: "set ?fixed \<subseteq> dom holidays" using h(2) by simp
  have "r_idx mod length ?fixed < length ?fixed" using f by simp
  then have "route_vehicle routes vehicles r_idx \<in> set ?fixed"
    unfolding route_vehicle_def by (rule nth_mem)
  then obtain hs where hs: "holidays (route_vehicle routes vehicles r_idx) = Some hs"
    using h(2) by auto
  have ho: "holidays_of ?fixed ?n (route_vehicle routes vehicles r_idx) = Some hs"
    using h(1) hs by (simp add: holidays_of_def)
  have rng: "\<forall>day\<in>set hs. 6 \<le> day \<and> day \<le> ?n"
    using h(3) hs unfolding holidays_ok_def by blast
  have hl: "holiday_list holidays (?fixed ! (r_idx mod length ?fixed)) = hs"
    using hs by (simp add: holiday_list_def route_vehicle_def)
  \<comment> \<open>the loop over the first routes\<close>
  let ?tt' = "fold (\<lambda>(i, r). AList.update r (?f i)) (enumerate 0 (take (Suc r_idx) routes)) []"
  have "route_loop holidays ?fixed ?backup ?n (enumerate 0 (take (Suc r_idx) routes)) []
           (substitutions_routes holidays ?fixed ?n 0 mod length ?backup) =
         Inr (?tt', substitutions_routes holidays ?fixed ?n (0 + length (take (Suc r_idx) routes))
                      mod length ?backup)"
    by (rule route_loop_eq[OF f sub b])
  moreover have "length (take (Suc r_idx) routes) = Suc r_idx" using assms(2) by simp
  ultimately have pre: "route_loop holidays ?fixed ?backup ?n (take (Suc r_idx) (enumerate 0 routes)) [] 0 =
         Inr (?tt', substitutions_routes holidays ?fixed ?n (Suc r_idx) mod length ?backup)"
    by (simp only: take_enumerate substitutions_routes_0 mod_0 add_0)
  have e': "map_of ?tt' (routes ! r_idx) = Some (?f r_idx)"
    using fold_update_lookup_last[OF emitted_at_prefix[OF assms(2)], of ?f 0] by simp
  \<comment> \<open>the emitted dictionary\<close>
  have tt: "tt = fold (\<lambda>(i, r). AList.update r (?f i)) (enumerate 0 routes) []"
    using h(4) assms(1) by simp
  have e: "map_of tt (routes ! r_idx) = Some (?f r_idx)"
    if "routes ! r_idx \<notin> set (drop (Suc r_idx) routes)"
  proof -
    have "emitted_at routes r_idx (routes ! r_idx)" using that assms(2) by (simp add: emitted_at_def)
    from fold_update_lookup_last[OF this, of ?f 0] show ?thesis unfolding tt by simp
  qed
  have cov: "covers_month ?n (?f r_idx)" using h(3) n by (rule route_blocks_covers)
  have lab: "\<forall>day\<in>{1..?n}. vehicle_on (?f r_idx) day =
        Some (if day \<in> set hs
              then ?backup ! (substitutions_before holidays ?fixed ?n r_idx day mod length ?backup) @ '' (H)''
              else route_vehicle routes vehicles r_idx)"
  proof
    fix day assume "day \<in> {1..?n}"
    then have d: "1 \<le> day" "day \<le> ?n" by auto
    show "vehicle_on (?f r_idx) day =
        Some (if day \<in> set hs
              then ?backup ! (substitutions_before holidays ?fixed ?n r_idx day mod length ?backup) @ '' (H)''
              else route_vehicle routes vehicles r_idx)"
      using route_blocks_label[OF b d, of holidays ?fixed r_idx]
      by (simp only: hl route_vehicle_def)
  qed
  show ?thesis using h(1) hs ho rng b pre e' e cov lab by blast
qed

lemma example_last: "example_routes ! 1 \<notin> set (drop (Suc 1) example_routes)"
  by (simp add: example_routes_def)

lemma example_position: "(1::nat) < length example_routes" "example_routes ! 1 = ''R2''"
  by (simp_all add: example_routes_def)

lemma example_entry: "map_of example_timetable ''R2'' = Some example_blocks_R2"
  by (simp add: example_timetable_def)

section \<open>The claims\<close>

subsection \<open>C4: holiday placement\<close>

text \<open>
  C4 (amended). Assigning the holidays never fails, and whatever the identifiers are, every
  vehicle gets at most 5 holidays, all of them between day 6 and the last day \<open>n\<close> of the
  month. A fixed vehicle at index \<open>i\<close> whose identifier no other fixed vehicle carries
  gets exactly the days \<open>(i mod 5) + 6\<close>, \<open>(i mod 5) + 12\<close>, ... in steps of 6, at most
  five and none beyond \<open>n\<close>.
\<close>

theorem C4_holiday_placement:
  "\<exists>holidays. assign_holidays fixed_vehicles n = Inr holidays \<and>
     dom holidays = set fixed_vehicles \<and>
     (\<forall>v hs. holidays v = Some hs \<longrightarrow> length hs \<le> 5 \<and> (\<forall>d\<in>set hs. 6 \<le> d \<and> d \<le> n)) \<and>
     (\<forall>i<length fixed_vehicles. occurs_once fixed_vehicles (fixed_vehicles ! i) \<longrightarrow>
        holidays (fixed_vehicles ! i) = Some (spec_holiday_days i n))"
proof -
  from assign_holidays_total[of fixed_vehicles n] obtain holidays where
    h: "assign_holidays fixed_vehicles n = Inr holidays" "dom holidays = set fixed_vehicles"
       "holidays_ok n holidays" by blast
  have "\<forall>i<length fixed_vehicles. occurs_once fixed_vehicles (fixed_vehicles ! i) \<longrightarrow>
        holidays (fixed_vehicles ! i) = Some (spec_holiday_days i n)"
    using assign_holidays_once[OF _ _ h(1)] by blast
  then show ?thesis using h unfolding holidays_ok_def by blast
qed

text \<open>Two distinct fixed vehicles in February 2025: the second one rests on 7, 13, 19, 25.\<close>

theorem C4_holiday_placement_witness:
  "occurs_once [''V1'', ''V2''] ([''V1'', ''V2''] ! 1) \<and>
   holidays_of [''V1'', ''V2''] (month_length 2025 2) ''V2'' = Some [7, 13, 19, 25]"
proof -
  have n: "month_length 2025 2 = 28" by code_simp
  have d: "occurs_once [''V1'', ''V2''] ([''V1'', ''V2''] ! 1)" by (simp add: occurs_once_def)
  have s: "spec_holiday_days 1 28 = [7, 13, 19, 25]" by code_simp
  from C4_holiday_placement[of "[''V1'', ''V2'']" 28] obtain holidays where
    h: "assign_holidays [''V1'', ''V2''] 28 = Inr holidays"
       "\<forall>i<length [''V1'', ''V2'']. occurs_once [''V1'', ''V2''] ([''V1'', ''V2''] ! i) \<longrightarrow>
          holidays ([''V1'', ''V2''] ! i) = Some (spec_holiday_days i 28)"
    by blast
  have "(1::nat) < length [''V1'', ''V2'']" by simp
  with h(2) d have "holidays ([''V1'', ''V2''] ! 1) = Some (spec_holiday_days 1 28)" by blast
  then have "holidays ''V2'' = Some [7, 13, 19, 25]" using s by simp
  then show ?thesis using h(1) d n by (simp add: holidays_of_def)
qed

text \<open>
  The claim as stated fails when an identifier occurs twice among the fixed vehicles: both
  occurrences share one dictionary entry. In February 2025 the vehicle at index 0 of
  \<open>[''A'', ''A'']\<close> also gets day 7, which the rule for index 0 does not produce.
\<close>

theorem C4_duplicate_vehicle_counterexample:
  "holidays_of [''A'', ''A''] (month_length 2025 2) ([''A'', ''A''] ! 0) = Some [6, 12, 18, 24, 7]
   \<and> spec_holiday_days 0 (month_length 2025 2) = [6, 12, 18, 24]"
  by code_simp

subsection \<open>C1: the blocks of a route cover the month\<close>

text \<open>
  C1. When there is at least one route, strictly more vehicles than routes and the month is
  valid, \<^verbatim>\<open>generate_block_timetable\<close> returns a timetable with an entry for every route
  name, and the blocks of every entry cover the days 1 to \<open>n\<close> of the month exactly once:
  the first block starts at day 1, every block is a non-empty range, each next block starts
  on the day after its predecessor ends, the last block ends at day \<open>n\<close>, and the days
  of the blocks, listed in order, are \<open>1, 2, ..., n\<close>.
\<close>

theorem C1_blocks_cover_month:
  assumes "routes \<noteq> []" "length routes < length vehicles" "1 \<le> month" "month \<le> 12"
  shows "\<exists>tt. generate_block_timetable routes vehicles year month = Inr tt \<and>
           fst ` set tt = set routes \<and>
           (\<forall>(route, blocks)\<in>set tt. covers_month (month_length year month) blocks)"
proof -
  from generate_success[OF assms] obtain holidays where
    g: "generate_block_timetable routes vehicles year month =
       Inr (fold (\<lambda>(i, r). AList.update r
                   (route_blocks holidays (fixed_vehicles_of routes vehicles)
                      (backup_vehicles_of routes vehicles) (month_length year month) i))
              (enumerate 0 routes) [])"
    by blast
  then obtain tt where tt: "generate_block_timetable routes vehicles year month = Inr tt"
    and fold: "tt = fold (\<lambda>(i, r). AList.update r
                   (route_blocks holidays (fixed_vehicles_of routes vehicles)
                      (backup_vehicles_of routes vehicles) (month_length year month) i))
              (enumerate 0 routes) []"
    by blast
  have "fst ` set tt = set (map snd (enumerate 0 routes))"
    unfolding fold fold_update_keys by (simp only: set_map) simp
  then have keys: "fst ` set tt = set routes" by simp
  have "\<forall>(route, blocks)\<in>set tt. covers_month (month_length year month) blocks"
    using generate_entry_blocks[OF tt] by blast
  then show ?thesis using tt keys by blast
qed

theorem C1_blocks_cover_month_witness:
  "example_routes \<noteq> [] \<and> length example_routes < length example_vehicles \<and>
   (1::int) \<le> 4 \<and> (4::int) \<le> 12 \<and>
   generate_block_timetable example_routes example_vehicles 2025 4 = Inr example_timetable \<and>
   covers_month (month_length 2025 4) example_blocks_R2"
proof -
  have h: "example_routes \<noteq> []" "length example_routes < length example_vehicles"
    by (simp_all add: example_routes_def example_vehicles_def)
  from C1_blocks_cover_month[OF h, of 4 2025] obtain tt where
    tt: "generate_block_timetable example_routes example_vehicles 2025 4 = Inr tt"
        "\<forall>(route, blocks)\<in>set tt. covers_month (month_length 2025 4) blocks"
    by auto
  have "tt = example_timetable" using tt(1) example_run by simp
  then have "covers_month (month_length 2025 4) example_blocks_R2"
    using tt(2) example_member by blast
  then show ?thesis using h example_run by simp
qed

subsection \<open>C2: the holiday marker\<close>




subsection \<open>C5: the regular vehicle, or a backup on a holiday\<close>

text \<open>
  C5 (amended). For every run that returns a timetable and every route position \<open>r_idx\<close>
  whose route name does not occur again at a later position (every position, when the
  route names are pairwise distinct), the timetable has an entry under that route name, and
  for every day of the month: on a day that is not in the holiday list of the route's fixed
  vehicle (the vehicle at position \<open>r_idx mod len(fixed_vehicles)\<close>) the block covering
  the day is labelled with that vehicle, and on a day of the holiday list it is labelled
  with the identifier of a backup vehicle followed by \<^verbatim>\<open> (H)\<close>.
\<close>

theorem C5_regular_or_backup:
  assumes "generate_block_timetable routes vehicles year month = Inr tt"
    and "r_idx < length routes" "routes ! r_idx \<notin> set (drop (Suc r_idx) routes)"
  shows "\<exists>blocks hs. map_of tt (routes ! r_idx) = Some blocks \<and>
     (routes ! r_idx, blocks) \<in> set tt \<and>
     holidays_of (fixed_vehicles_of routes vehicles) (month_length year month)
        (route_vehicle routes vehicles r_idx) = Some hs \<and>
     (\<forall>day\<in>{1..month_length year month}.
        if day \<in> set hs
        then \<exists>b\<in>set (backup_vehicles_of routes vehicles). vehicle_on blocks day = Some (b @ '' (H)'')
        else vehicle_on blocks day = Some (route_vehicle routes vehicles r_idx))"
proof -
  let ?fixed = "fixed_vehicles_of routes vehicles"
  let ?backup = "backup_vehicles_of routes vehicles"
  let ?n = "month_length year month"
  from generate_position[OF assms(1,2)] assms(3) obtain holidays hs where
    e: "holidays_of ?fixed ?n (route_vehicle routes vehicles r_idx) = Some hs"
       "?backup \<noteq> []"
       "map_of tt (routes ! r_idx) = Some (route_blocks holidays ?fixed ?backup ?n r_idx)"
       "\<forall>day\<in>{1..?n}.
          vehicle_on (route_blocks holidays ?fixed ?backup ?n r_idx) day =
          Some (if day \<in> set hs
                then ?backup ! (substitutions_before holidays ?fixed ?n r_idx day mod length ?backup) @ '' (H)''
                else route_vehicle routes vehicles r_idx)"
    by blast
  let ?blocks = "route_blocks holidays ?fixed ?backup ?n r_idx"
  have mem: "(routes ! r_idx, ?blocks) \<in> set tt" using e(3) by (rule map_of_SomeD)
  have "\<forall>day\<in>{1..?n}.
        if day \<in> set hs
        then \<exists>b\<in>set ?backup. vehicle_on ?blocks day = Some (b @ '' (H)'')
        else vehicle_on ?blocks day = Some (route_vehicle routes vehicles r_idx)"
  proof
    fix day assume d: "day \<in> {1..?n}"
    let ?k = "substitutions_before holidays ?fixed ?n r_idx day mod length ?backup"
    have "?k < length ?backup" using e(2) by simp
    then have "?backup ! ?k \<in> set ?backup" by (rule nth_mem)
    then show "if day \<in> set hs
        then \<exists>b\<in>set ?backup. vehicle_on ?blocks day = Some (b @ '' (H)'')
        else vehicle_on ?blocks day = Some (route_vehicle routes vehicles r_idx)"
      using e(4) d by auto
  qed
  then show ?thesis using e(1,3) mem by blast
qed

text \<open>
  The second of two routes in April 2025: its entry is served by its fixed vehicle on day
  8 and by a backup vehicle on its holiday, day 7.
\<close>

theorem C5_regular_or_backup_witness:
  "generate_block_timetable example_routes example_vehicles 2025 4 = Inr example_timetable \<and>
   (1::nat) < length example_routes \<and>
   example_routes ! 1 \<notin> set (drop (Suc 1) example_routes) \<and>
   map_of example_timetable (example_routes ! 1) = Some example_blocks_R2 \<and>
   vehicle_on example_blocks_R2 8 = Some (route_vehicle example_routes example_vehicles 1) \<and>
   (\<exists>b\<in>set (backup_vehicles_of example_routes example_vehicles).
      vehicle_on example_blocks_R2 7 = Some (b @ '' (H)''))"
proof -
  from C5_regular_or_backup[OF example_run example_position(1) example_last] obtain blocks hs where
    e: "map_of example_timetable (example_routes ! 1) = Some blocks"
       "holidays_of (fixed_vehicles_of example_routes example_vehicles) (month_length 2025 4)
          (route_vehicle example_routes example_vehicles 1) = Some hs"
       "\<forall>day\<in>{1..month_length 2025 4}.
        if day \<in> set hs
        then \<exists>b\<in>set (backup_vehicles_of example_routes example_vehicles).
               vehicle_on blocks day = Some (b @ '' (H)'')
        else vehicle_on blocks day = Some (route_vehicle example_routes example_vehicles 1)"
    by blast
  have bl: "blocks = example_blocks_R2"
    using e(1) example_entry by (metis example_position(2) option.inject)
  have hs: "hs = [7, 13, 19, 25]"
    using e(2) example_holidays(2) by (simp add: example_R2_vehicle example_fixed example_month)
  have "(8::int) \<in> {1..month_length 2025 4}" "(8::int) \<notin> set hs" by (simp_all add: example_month hs)
  with e(3) have a: "vehicle_on example_blocks_R2 8 = Some (route_vehicle example_routes example_vehicles 1)"
    unfolding bl by fastforce
  have "(7::int) \<in> {1..month_length 2025 4}" "(7::int) \<in> set hs" by (simp_all add: example_month hs)
  with e(3) have b: "\<exists>b\<in>set (backup_vehicles_of example_routes example_vehicles).
      vehicle_on example_blocks_R2 7 = Some (b @ '' (H)'')"
    unfolding bl by fastforce
  show ?thesis using example_run example_position(1) example_last e(1) a b unfolding bl by blast
qed

text \<open>
  As stated, for each route, the claim fails when a route name recurs: the dictionary keeps
  one entry per name, written by the last position. For the routes \<open>R1, R2, R1\<close> the
  route at position 0 has the fixed vehicle \<open>V1\<close>, and day 1 is no holiday of
  \<open>V1\<close>, but the entry under \<open>R1\<close> is served by \<open>V3\<close> on day 1.
\<close>

theorem C5_recurring_route_counterexample:
  "timetable_entry [''R1'', ''R2'', ''R1''] [''V1'', ''V2'', ''V3'', ''V4''] 2025 2
     ([''R1'', ''R2'', ''R1''] ! 0) = Some recurring_blocks \<and>
   route_vehicle [''R1'', ''R2'', ''R1''] [''V1'', ''V2'', ''V3'', ''V4''] 0 = ''V1'' \<and>
   holidays_of (fixed_vehicles_of [''R1'', ''R2'', ''R1''] [''V1'', ''V2'', ''V3'', ''V4''])
     (month_length 2025 2) ''V1'' = Some [6, 12, 18, 24] \<and>
   (1::int) \<notin> set [6, 12, 18, 24] \<and>
   vehicle_on recurring_blocks 1 = Some ''V3'' \<and>
   vehicle_on recurring_blocks 1 \<noteq>
     Some (route_vehicle [''R1'', ''R2'', ''R1''] [''V1'', ''V2'', ''V3'', ''V4''] 0)"
  by code_simp

subsection \<open>C6: blocks are maximal\<close>

text \<open>
  C6. In every entry of an emitted timetable, any two consecutive blocks carry different
  vehicle labels.
\<close>

theorem C6_blocks_maximal:
  assumes "generate_block_timetable routes vehicles year month = Inr tt" "(route, blocks) \<in> set tt"
  shows "distinct_adj (map block_vehicle blocks)"
  using generate_entry_blocks[OF assms] by blast

theorem C6_blocks_maximal_witness:
  "generate_block_timetable example_routes example_vehicles 2025 4 = Inr example_timetable \<and>
   (''R2'', example_blocks_R2) \<in> set example_timetable \<and>
   distinct_adj (map block_vehicle example_blocks_R2)"
  using C6_blocks_maximal[OF example_run example_member] example_run example_member
  by blast

subsection \<open>C8: too few vehicles\<close>

text \<open>
  C8 (amended). When there is at least one route and the vehicle list is no longer than the
  route list, \<^verbatim>\<open>generate_block_timetable\<close> never returns a timetable. For a valid month
  it raises \<^verbatim>\<open>IndexError\<close> (indexing the empty backup list on the first holiday) when
  there is at least one vehicle, and \<^verbatim>\<open>ZeroDivisionError\<close> (from
  \<^verbatim>\<open>r_idx % len(fixed_vehicles)\<close>) when there is no vehicle at all; for an invalid
  month it raises \<^verbatim>\<open>IllegalMonthError\<close>.
\<close>

theorem C8_too_few_vehicles:
  assumes "routes \<noteq> []" "length vehicles \<le> length routes"
  shows "generate_block_timetable routes vehicles year month =
     Inl (if \<not> (1 \<le> month \<and> month \<le> 12) then IllegalMonthError
          else if vehicles = [] then ZeroDivisionError else IndexError)"
  using assms by (rule generate_failure)

theorem C8_too_few_vehicles_witness:
  "[''R1'', ''R2''] \<noteq> [] \<and> length [''V1'', ''V2''] \<le> length [''R1'', ''R2''] \<and>
   generate_block_timetable [''R1'', ''R2''] [''V1'', ''V2''] 2025 2 = Inl IndexError"
  using C8_too_few_vehicles[of "[''R1'', ''R2'']" "[''V1'', ''V2'']" 2025 2] by simp

text \<open>
  As stated, with an indexing error in every case, the claim fails for the empty vehicle
  list: the run stops with \<^verbatim>\<open>ZeroDivisionError\<close> before any holiday is looked at.
\<close>

theorem C8_no_vehicle_counterexample:
  "[''R1''] \<noteq> [] \<and> length ([] :: string list) \<le> length [''R1''] \<and>
   generate_block_timetable [''R1''] [] 2025 2 = Inl ZeroDivisionError \<and>
   generate_block_timetable [''R1''] [] 2025 2 \<noteq> Inl IndexError"
  by code_simp

subsection \<open>C9: one round-robin over the backup vehicles\<close>

text \<open>
  C9. In every run that returns a timetable, for every route position \<open>r_idx\<close>: the route
  loop, run over the routes up to this position from the empty dictionary and the index 0,
  leaves an entry under the route's name and the index \<open>s mod len(backup_vehicles)\<close>,
  where \<open>s\<close> is the number of holiday substitutions of all routes up to this position.
  When the route name does not occur again later, this entry is the one of the emitted
  timetable. In the entry, the block covering a holiday \<open>day\<close> of the route's fixed
  vehicle is labelled with the backup vehicle at position \<open>k mod len(backup_vehicles)\<close>,
  where \<open>k\<close> is the number of holiday substitutions made before, counted over all routes
  enumerated earlier and over the earlier days of this route. The index therefore starts at
  the first backup vehicle, advances by one at every substitution and is not reset between
  routes.
\<close>

theorem C9_shared_round_robin:
  assumes "generate_block_timetable routes vehicles year month = Inr tt" "r_idx < length routes"
  shows "\<exists>holidays hs blocks tt'.
     assign_holidays (fixed_vehicles_of routes vehicles) (month_length year month) = Inr holidays \<and>
     holidays (route_vehicle routes vehicles r_idx) = Some hs \<and>
     route_loop holidays (fixed_vehicles_of routes vehicles) (backup_vehicles_of routes vehicles)
        (month_length year month) (take (Suc r_idx) (enumerate 0 routes)) [] 0 =
       Inr (tt', substitutions_routes holidays (fixed_vehicles_of routes vehicles)
                   (month_length year month) (Suc r_idx)
                 mod length (backup_vehicles_of routes vehicles)) \<and>
     map_of tt' (routes ! r_idx) = Some blocks \<and>
     (routes ! r_idx \<notin> set (drop (Suc r_idx) routes) \<longrightarrow> map_of tt (routes ! r_idx) = Some blocks) \<and>
     (\<forall>day\<in>set hs. vehicle_on blocks day =
        Some (backup_vehicles_of routes vehicles !
                (substitutions_before holidays (fixed_vehicles_of routes vehicles)
                   (month_length year month) r_idx day
                 mod length (backup_vehicles_of routes vehicles)) @ '' (H)''))"
proof -
  let ?fixed = "fixed_vehicles_of routes vehicles"
  let ?backup = "backup_vehicles_of routes vehicles"
  let ?n = "month_length year month"
  from generate_position[OF assms] obtain holidays hs tt' where
    e: "assign_holidays ?fixed ?n = Inr holidays"
       "holidays (route_vehicle routes vehicles r_idx) = Some hs"
       "\<forall>day\<in>set hs. 6 \<le> day \<and> day \<le> ?n"
       "route_loop holidays ?fixed ?backup ?n (take (Suc r_idx) (enumerate 0 routes)) [] 0 =
          Inr (tt', substitutions_routes holidays ?fixed ?n (Suc r_idx) mod length ?backup)"
       "map_of tt' (routes ! r_idx) = Some (route_blocks holidays ?fixed ?backup ?n r_idx)"
       "routes ! r_idx \<notin> set (drop (Suc r_idx) routes) \<longrightarrow>
          map_of tt (routes ! r_idx) = Some (route_blocks holidays ?fixed ?backup ?n r_idx)"
       "\<forall>day\<in>{1..?n}.
          vehicle_on (route_blocks holidays ?fixed ?backup ?n r_idx) day =
          Some (if day \<in> set hs
                then ?backup ! (substitutions_before holidays ?fixed ?n r_idx day mod length ?backup) @ '' (H)''
                else route_vehicle routes vehicles r_idx)"
    by blast
  let ?blocks = "route_blocks holidays ?fixed ?backup ?n r_idx"
  have "\<forall>day\<in>set hs. vehicle_on ?blocks day =
        Some (?backup ! (substitutions_before holidays ?fixed ?n r_idx day mod length ?backup) @ '' (H)'')"
  proof
    fix day assume d: "day \<in> set hs"
    then have "day \<in> {1..?n}" using e(3) by auto
    then show "vehicle_on ?blocks day =
        Some (?backup ! (substitutions_before holidays ?fixed ?n r_idx day mod length ?backup) @ '' (H)'')"
      using e(7) d by simp
  qed
  then show ?thesis using e(1,2,4,5,6) by blast
qed

text \<open>
  The second of two routes in April 2025, with two backup vehicles: the first route has
  taken five substitutions, so the holiday on day 7 is the sixth and goes to the second
  backup vehicle.
\<close>

theorem C9_shared_round_robin_witness:
  "generate_block_timetable example_routes example_vehicles 2025 4 = Inr example_timetable \<and>
   (1::nat) < length example_routes \<and>
   example_routes ! 1 \<notin> set (drop (Suc 1) example_routes) \<and>
   map_of example_timetable (example_routes ! 1) = Some example_blocks_R2 \<and>
   backup_vehicles_of example_routes example_vehicles ! (5 mod 2) = ''V4'' \<and>
   vehicle_on example_blocks_R2 7 = Some ''V4 (H)''"
proof -
  let ?fixed = "fixed_vehicles_of example_routes example_vehicles"
  from C9_shared_round_robin[OF example_run example_position(1)] example_last obtain holidays hs blocks where
    e: "assign_holidays ?fixed (month_length 2025 4) = Inr holidays"
       "holidays (route_vehicle example_routes example_vehicles 1) = Some hs"
       "map_of example_timetable (example_routes ! 1) = Some blocks"
       "\<forall>day\<in>set hs. vehicle_on blocks day =
        Some (backup_vehicles_of example_routes example_vehicles !
                (substitutions_before holidays ?fixed (month_length 2025 4) 1 day
                 mod length (backup_vehicles_of example_routes example_vehicles)) @ '' (H)'')"
    by blast
  have bl: "blocks = example_blocks_R2"
    using e(3) example_entry by (metis example_position(2) option.inject)
  have h1: "holidays ''V1'' = Some [6, 12, 18, 24, 30]" and h2: "holidays ''V2'' = Some [7, 13, 19, 25]"
    using e(1) example_holidays by (simp_all add: holidays_of_def example_fixed example_month)
  have hs: "hs = [7, 13, 19, 25]" using e(2) h2 by (simp add: example_R2_vehicle)
  have c1: "substitutions_upto holidays ''V1'' 30 = 5"
    unfolding substitutions_upto_def holiday_list_def h1 by code_simp
  have c2: "substitutions_upto holidays ''V2'' 6 = 0"
    unfolding substitutions_upto_def holiday_list_def h2 by code_simp
  have k: "substitutions_before holidays ?fixed (month_length 2025 4) 1 7 = 5"
    by (simp add: substitutions_before_def example_fixed example_month c1 c2)
  have "(7::int) \<in> set hs" by (simp add: hs)
  with e(4) have "vehicle_on blocks 7 =
        Some (backup_vehicles_of example_routes example_vehicles !
                (substitutions_before holidays ?fixed (month_length 2025 4) 1 7
                 mod length (backup_vehicles_of example_routes example_vehicles)) @ '' (H)'')"
    by blast
  moreover have len: "length (backup_vehicles_of example_routes example_vehicles) = 2"
    by (simp add: example_backup)
  moreover have idx: "backup_vehicles_of example_routes example_vehicles ! (5 mod 2) = ''V4''"
    by (simp add: example_backup)
  ultimately have "vehicle_on blocks 7 = Some (''V4'' @ '' (H)'')"
    by (simp only: k)
  then have "vehicle_on example_blocks_R2 7 = Some ''V4 (H)''" unfolding bl by simp
  then show ?thesis using example_run example_position(1) example_last e(3) idx unfolding bl by blast
qed

subsection \<open>C10: a holiday block is one day long\<close>




subsection \<open>C7: a failing clean-up is ignored\<close>

text \<open>
  C7. Once the timetable has been generated and the PDF bytes have been read, the outcome
  of deleting the temporary file does not matter: whether \<^verbatim>\<open>os.remove\<close> returns or
  raises, the handler goes on to the summary of \<^verbatim>\<open>vehicles[:14]\<close> and offers the PDF
  bytes and the summary.
\<close>

theorem C7_cleanup_failure_ignored:
  assumes "generate_block_timetable routes vehicles year month = Inr timetable_blocks"
    and "pdf_result timetable_blocks = Inr pdf_bytes"
  shows "on_generate_click routes vehicles year month pdf_result remove_result =
     Inr (pdf_bytes, generate_summary timetable_blocks (take 14 vehicles) (month_length year month))"
proof -
  have m: "1 \<le> month \<and> month \<le> 12"
    using generate_bad_month[of month routes vehicles year] assms(1) by auto
  then have "monthrange_days year month = Inr (month_length year month)"
    by (simp add: monthrange_days_def)
  then show ?thesis
    using assms by (simp add: on_generate_click_def try_except_pass_always)
qed

theorem C7_cleanup_failure_ignored_witness:
  "generate_block_timetable example_routes example_vehicles 2025 4 = Inr example_timetable \<and>
   on_generate_click example_routes example_vehicles 2025 4 (\<lambda>timetable_blocks. Inr ''%PDF'') (Inl OSError) =
     Inr (''%PDF'', generate_summary example_timetable (take 14 example_vehicles) (month_length 2025 4))"
  using C7_cleanup_failure_ignored[OF example_run, of "\<lambda>timetable_blocks. Inr ''%PDF''" "''%PDF''" "Inl OSError"]
    example_run
  by simp

subsection \<open>C3: the summary\<close>

text \<open>
  C3. The summary is meant to report, for every vehicle, the days of the month minus its
  holidays as working days, and it does so for the rows of fixed vehicles (lemma
  \<open>summary_row_of_fixed_vehicle\<close>). But the handler makes it for the first 14 vehicles
  of the sheet, not for the fixed vehicles of the run: in the example run with two routes
  the backup vehicles \<open>V3\<close> and \<open>V4\<close>, which have no holiday at all, are reported
  with no working day and 30 holidays.
\<close>

theorem C3_summary_rows_of_backup_vehicles:
  "generate_block_timetable example_routes example_vehicles 2025 4 = Inr example_timetable \<and>
   generate_summary example_timetable (take 14 example_vehicles) (month_length 2025 4) =
     [\<lparr>row_vehicle = ''V1'', row_working_days = 25, row_holidays = 5\<rparr>,
      \<lparr>row_vehicle = ''V2'', row_working_days = 26, row_holidays = 4\<rparr>,
      \<lparr>row_vehicle = ''V3'', row_working_days = 0, row_holidays = 30\<rparr>,
      \<lparr>row_vehicle = ''V4'', row_working_days = 0, row_holidays = 30\<rparr>] \<and>
   holidays_of (fixed_vehicles_of example_routes example_vehicles) (month_length 2025 4) ''V3'' = None \<and>
   holidays_of (fixed_vehicles_of example_routes example_vehicles) (month_length 2025 4) ''V4'' = None"
  using example_run example_summary example_backup_holidays
  by (intro conjI) assumption+

end
